theory Spec2Isabelle
  imports Complex_Main
begin

section \<open>Habit tracker front end (static/js/app.js): data\<close>

text \<open>
  The file \<^verbatim>\<open>src/static/js/app.js\<close> holds two revisions of the script, one after the
  other. The development follows the first one (lines 1 to 280), the revision the
  specification was written from.

  Conventions of the embedding.
  \<^item> A JSON number is a \<^typ>\<open>rat\<close>: every finite double is a rational, and the operations
    applied to numbers here (comparison, \<^verbatim>\<open>Math.round\<close>, \<^verbatim>\<open>Math.min\<close>, \<^verbatim>\<open>Math.max\<close>,
    \<^verbatim>\<open>toFixed\<close>) are defined by ECMAScript on the exact mathematical value. A literal
    too large for a double is read as an infinity.
  \<^item> A habit identifier is a JSON integer (the selector's change handler reads it back with
    \<^verbatim>\<open>parseInt\<close>); the module variable \<^verbatim>\<open>currentHabitId\<close> is \<^verbatim>\<open>null\<close> or such a number.
    JavaScript truthiness is kept: \<^verbatim>\<open>null\<close> and \<^verbatim>\<open>0\<close> are falsy.
  \<^item> A DOM element that \<^verbatim>\<open>document.getElementById\<close> may fail to find is an option.
  \<^item> An \<^verbatim>\<open>async\<close> function that is awaited, or started by an event, runs to its end
    without interleaving. The three loads that the page starts together without awaiting
    them (line 259) issue their requests at once and go on as the answers arrive. The
    answer of the server to the n-th request of a run is a parameter (record \<open>env\<close>).
\<close>

datatype jsval =
  JUndefined | JNull | JBool bool | JNum rat | JPosInfinity | JNegInfinity | JStr string

text \<open>\<^verbatim>\<open>Number.isFinite(v)\<close>: it holds of the finite numbers only (no JSON value is NaN).\<close>

fun isFinite :: "jsval \<Rightarrow> bool" where
  "isFinite (JNum x) = True"
| "isFinite v = False"

fun truthy :: "int option \<Rightarrow> bool" where
  "truthy None = False"
| "truthy (Some n) = (n \<noteq> 0)"

record habit =
  habit_id :: int
  habit_name :: string
  habit_color :: "string option"
  target_per_week :: jsval
  completed :: bool
  streak :: jsval
  best_streak :: jsval
  score :: jsval

text \<open>A Chart.js instance: the configuration it was built from, and whether \<^verbatim>\<open>destroy()\<close>
  has been called on it.\<close>

record chart =
  chart_labels :: "string list"
  chart_ideal :: "rat list"
  chart_actual :: "rat list"
  chart_color :: string
  chart_title :: string
  chart_destroyed :: bool

record canvas_el =
  style_display :: string
  canvas_aria_hidden :: "string option"

record placeholder_el =
  textContent :: string
  dataset_state :: "string option"
  aria_hidden :: "string option"
  classList :: "string list"

record toast_el =
  toast_classes :: "string list"
  toast_text :: string

record option_el =
  option_value :: "string option"
  option_text :: string
  option_selected :: bool
  option_disabled :: bool

record select_el =
  select_options :: "option_el list"
  select_disabled :: bool

record habit_li =
  li_class :: string
  li_border_left :: string
  li_title :: string
  li_badge_class :: string
  li_badge_text :: string
  li_meta :: string
  li_actual_width :: string
  li_actual_background :: string
  li_complete_text :: string

record range_btn =
  btn_text :: string
  btn_active :: bool
  btn_disabled :: bool

datatype list_item = EmptyState string | HabitItem habit_li

datatype journal_li = EmptyJournal string | JournalItem int string

text \<open>The payloads of the HTTP API, with the shapes of its contract. A part the script
  dereferences may be missing, which raises a \<^verbatim>\<open>TypeError\<close> as in JavaScript.\<close>

record habit_snapshot =
  snapshot_name :: string
  snapshot_color :: "string option"
  snapshot_target :: jsval

record progress_data =
  data_dates :: "string list option"
  data_ideal :: "rat list"
  data_actual :: "rat list"
  data_habit :: "habit_snapshot option"

record ideal_self =
  vision :: "string option"
  focus_areas :: "string list option"

record journal_entry =
  entry_content :: string
  entry_timestamp :: int

text \<open>
  A fetch either rejects (transport failure) or resolves to a response with its
  \<^verbatim>\<open>ok\<close> flag and its body; the body is \<open>None\<close> when \<^verbatim>\<open>res.json()\<close> rejects.
\<close>

datatype 'b fetch_result = Rejected | Response bool "'b option"

text \<open>
  The surroundings of a run: the answer of the server to the request issued when \<open>n\<close>
  requests have been issued before, for each endpoint; whether the global \<^verbatim>\<open>Chart\<close> is
  defined and whether its constructor returns (at that same point of the run); and
  \<open>number_digits\<close>, ECMAScript's \<^verbatim>\<open>Number::toString\<close> for the numbers whose digits are
  not modelled here (non-integers, magnitudes from \<open>10^21\<close>).
\<close>

record env =
  get_habits :: "nat \<Rightarrow> habit list fetch_result"
  post_habits :: "nat \<Rightarrow> int option fetch_result"
  put_habit :: "nat \<Rightarrow> unit fetch_result"
  get_progress :: "nat \<Rightarrow> progress_data fetch_result"
  get_idealself :: "nat \<Rightarrow> ideal_self fetch_result"
  post_idealself :: "nat \<Rightarrow> unit fetch_result"
  get_journal :: "nat \<Rightarrow> journal_entry list fetch_result"
  post_journal :: "nat \<Rightarrow> unit fetch_result"
  post_demo_reset :: "nat \<Rightarrow> unit fetch_result"
  chart_defined :: bool
  chart_constructs :: "nat \<Rightarrow> bool"
  number_digits :: "rat \<Rightarrow> string"

datatype request =
    GET_habits | POST_habits | PUT_habit int | GET_progress int int
  | GET_idealself | POST_idealself | GET_journal | POST_journal | POST_demo_reset

datatype js_error =
    NetworkFailure | Error string | SyntaxError | TypeError | ChartError

text \<open>
  The state: the three module variables, the Chart.js instances built so far (\<open>habitChart\<close>
  is an index into them, as the variable is a reference to an object), the DOM elements the
  script reads and writes (field \<open>el_x\<close> is the element with id \<open>x\<close>), and what the run has
  done to the outside: the requests issued, the errors given to \<^verbatim>\<open>console.error\<close>, and the
  invocations of \<^verbatim>\<open>loadHabitProgress\<close> (with the identifier and range they found).
  A toast stays in \<open>el_toastContainer\<close>: the timers that fade and remove it are not part of
  the state, so the list is the history of the toasts shown.
\<close>

record app_state =
  habitChart :: "nat option"
  currentHabitId :: "int option"
  currentRange :: int
  charts :: "chart list"
  el_habitChart :: "canvas_el option"
  el_chartEmptyState :: "placeholder_el option"
  el_toastContainer :: "toast_el list option"
  el_habitSelect :: "select_el option"
  el_habitList :: "list_item list option"
  el_rangeButtons :: "range_btn list option"
  el_idealSelfSummary :: "string option"
  el_idealVisionCopy :: "string option"
  el_idealFocusCopy :: "string option"
  el_idealVision :: "string option"
  el_idealFocusAreas :: "string option"
  el_journalInput :: "string option"
  el_journalEntries :: "journal_li list option"
  requests :: "request list"
  console :: "js_error list"
  progress_calls :: "(int option \<times> int) list"

definition chartRanges :: "int list" where
  "chartRanges = [7, 14, 30, 90]"

definition DEFAULT_CHART_MESSAGE :: string where
  "DEFAULT_CHART_MESSAGE = ''Add a habit to see its ideal vs actual progress.''"

section \<open>The visibility controller and the toast notifier\<close>

text \<open>\<^verbatim>\<open>classList.add\<close> and \<^verbatim>\<open>classList.remove\<close> on a token list.\<close>

definition class_add :: "string \<Rightarrow> string list \<Rightarrow> string list" where
  "class_add c cs = (if c \<in> set cs then cs else cs @ [c])"

definition class_remove :: "string \<Rightarrow> string list \<Rightarrow> string list" where
  "class_remove c cs = filter (\<lambda>d. d \<noteq> c) cs"

text \<open>\<^verbatim>\<open>habitChart.destroy()\<close> on the instance the handle \<open>h\<close> refers to.\<close>

definition destroy :: "nat \<Rightarrow> app_state \<Rightarrow> app_state" where
  "destroy h s =
     (if h < length (charts s)
      then s\<lparr>charts := (charts s)[h := (charts s ! h)\<lparr>chart_destroyed := True\<rparr>]\<rparr>
      else s)"

text \<open>
  \<^verbatim>\<open>updateChartVisibility(state, message = '')\<close>, lines 21 to 38. An omitted message is
  \<open>None\<close> and takes the default \<^verbatim>\<open>''\<close>.
\<close>

definition updateChartVisibility :: "string \<Rightarrow> string option \<Rightarrow> app_state \<Rightarrow> app_state" where
  "updateChartVisibility state message s =
     (let msg = (case message of None \<Rightarrow> [] | Some m \<Rightarrow> m) in
      case el_habitChart s of
        None \<Rightarrow> s
      | Some cv \<Rightarrow>
         (case el_chartEmptyState s of
            None \<Rightarrow> s
          | Some ph \<Rightarrow>
             (let ph1 = (if msg \<noteq> [] then ph\<lparr>textContent := msg\<rparr> else ph);
                  ph2 = ph1\<lparr>dataset_state := Some state\<rparr>;
                  ph3 = ph2\<lparr>aria_hidden := Some (if state = ''ready'' then ''true'' else ''false'')\<rparr>
              in if state = ''ready''
                 then s\<lparr>el_chartEmptyState :=
                          Some (ph3\<lparr>classList := class_add ''hidden'' (classList ph3)\<rparr>),
                        el_habitChart :=
                          Some (cv\<lparr>style_display := ''block'', canvas_aria_hidden := None\<rparr>)\<rparr>
                 else
                   (let s1 = s\<lparr>el_chartEmptyState :=
                                 Some (ph3\<lparr>classList := class_remove ''hidden'' (classList ph3)\<rparr>),
                               el_habitChart :=
                                 Some (cv\<lparr>style_display := ''none'',
                                          canvas_aria_hidden := Some ''true''\<rparr>)\<rparr>
                    in if state = ''empty'' \<or> state = ''error''
                       then (case habitChart s1 of
                               None \<Rightarrow> s1
                             | Some h \<Rightarrow> (destroy h s1)\<lparr>habitChart := None\<rparr>)
                       else s1))))"

text \<open>\<^verbatim>\<open>showToast(message, tone)\<close>, lines 40 to 49; every caller passes the tone.\<close>

definition showToast :: "string \<Rightarrow> string \<Rightarrow> app_state \<Rightarrow> app_state" where
  "showToast message tone s =
     (case el_toastContainer s of
        None \<Rightarrow> s
      | Some ts \<Rightarrow>
          s\<lparr>el_toastContainer :=
               Some (ts @ [\<lparr>toast_classes =
                              (if tone \<noteq> ''info'' then class_add tone [''toast''] else [''toast'']),
                            toast_text = message\<rparr>])\<rparr>)"

definition console_error :: "js_error \<Rightarrow> app_state \<Rightarrow> app_state" where
  "console_error err s = s\<lparr>console := console s @ [err]\<rparr>"

text \<open>
  What the page shows. The canvas is shown unless its inline style says
  \<^verbatim>\<open>display: none\<close>; the placeholder is shown unless it carries the class \<^verbatim>\<open>hidden\<close>.
\<close>

definition canvas_visible :: "app_state \<Rightarrow> bool" where
  "canvas_visible s =
     (case el_habitChart s of None \<Rightarrow> False | Some cv \<Rightarrow> style_display cv \<noteq> ''none'')"

definition placeholder_visible :: "app_state \<Rightarrow> bool" where
  "placeholder_visible s =
     (case el_chartEmptyState s of None \<Rightarrow> False | Some ph \<Rightarrow> ''hidden'' \<notin> set (classList ph))"

definition visibility_state :: "app_state \<Rightarrow> string option" where
  "visibility_state s =
     (case el_chartEmptyState s of None \<Rightarrow> None | Some ph \<Rightarrow> dataset_state ph)"

definition placeholder_text :: "app_state \<Rightarrow> string" where
  "placeholder_text s =
     (case el_chartEmptyState s of None \<Rightarrow> [] | Some ph \<Rightarrow> textContent ph)"

definition toasts :: "app_state \<Rightarrow> toast_el list" where
  "toasts s = (case el_toastContainer s of None \<Rightarrow> [] | Some ts \<Rightarrow> ts)"

section \<open>Numbers and strings as JavaScript prints them\<close>

text \<open>The decimal digits of an integer; \<open>digit_char\<close> is applied to numbers below ten.\<close>

definition digit_char :: "nat \<Rightarrow> char" where
  "digit_char d = ''0123456789'' ! d"

fun nat_to_string :: "nat \<Rightarrow> string" where
  "nat_to_string n =
     (if n < 10 then [digit_char n]
      else nat_to_string (n div 10) @ [digit_char (n mod 10)])"

definition int_to_string :: "int \<Rightarrow> string" where
  "int_to_string i =
     (if i < 0 then CHR ''-'' # nat_to_string (nat (- i)) else nat_to_string (nat i))"

text \<open>
  A number inside a template literal: an integer below \<open>10^21\<close> in magnitude prints as its
  decimal digits; the digits of any other number are the parameter's.
\<close>

definition number_to_string :: "(rat \<Rightarrow> string) \<Rightarrow> rat \<Rightarrow> string" where
  "number_to_string digits x =
     (if x = of_int \<lfloor>x\<rfloor> \<and> \<bar>x\<bar> < 10 ^ 21 then int_to_string \<lfloor>x\<rfloor> else digits x)"

text \<open>
  \<^verbatim>\<open>x.toFixed(1)\<close>: the sign, then for a magnitude below \<open>10^21\<close> the integer \<open>n\<close> nearest
  to ten times the magnitude (the larger one of two) printed with a point before its last
  digit, and \<^verbatim>\<open>Number::toString\<close> of the magnitude otherwise.
\<close>

definition toFixed1 :: "(rat \<Rightarrow> string) \<Rightarrow> rat \<Rightarrow> string" where
  "toFixed1 digits x =
     (let sign = (if x < 0 then ''-'' else []); a = \<bar>x\<bar> in
      if 10 ^ 21 \<le> a then sign @ digits a
      else (let n = nat \<lfloor>a * 10 + 1 / 2\<rfloor>
            in sign @ nat_to_string (n div 10) @ ''.'' @ [digit_char (n mod 10)]))"

text \<open>\<^verbatim>\<open>Math.round\<close>: the nearest integer, the larger one of two.\<close>

definition Math_round :: "rat \<Rightarrow> int" where
  "Math_round x = \<lfloor>x + 1 / 2\<rfloor>"

fun jsval_to_string :: "(rat \<Rightarrow> string) \<Rightarrow> jsval \<Rightarrow> string" where
  "jsval_to_string digits JUndefined = ''undefined''"
| "jsval_to_string digits JNull = ''null''"
| "jsval_to_string digits (JBool b) = (if b then ''true'' else ''false'')"
| "jsval_to_string digits (JNum x) = number_to_string digits x"
| "jsval_to_string digits JPosInfinity = ''Infinity''"
| "jsval_to_string digits JNegInfinity = ''-Infinity''"
| "jsval_to_string digits (JStr t) = t"

text \<open>\<^verbatim>\<open>c || d\<close> for a string \<open>c\<close> that may be missing: the empty string is falsy.\<close>

definition string_or :: "string option \<Rightarrow> string \<Rightarrow> string" where
  "string_or c d = (case c of None \<Rightarrow> d | Some x \<Rightarrow> if x = [] then d else x)"

text \<open>The bullet U+2022 of the template literals, in UTF-8.\<close>

definition bullet :: string where
  "bullet = [CHR 0xE2, CHR 0x80, CHR 0xA2]"

text \<open>
  \<^verbatim>\<open>trim()\<close>. A string here is the UTF-8 encoding of the string of the script (as the
  bullet above), and \<open>white_space\<close> lists the encodings of the code points that
  \<^verbatim>\<open>String.prototype.trim\<close> strips: the white space of ECMAScript (TAB, VT, FF, the space
  separators U+0020, U+00A0, U+1680, U+2000 to U+200A, U+202F, U+205F and U+3000, and
  U+FEFF) and its line terminators (LF, CR, U+2028 and U+2029). \<open>strip ws\<close> removes the
  members of \<open>ws\<close> from the front of a string; the end is stripped on the reversed string,
  where the encodings read backwards.
\<close>

definition white_space :: "string list" where
  "white_space =
     [[CHR 0x09], [CHR 0x0A], [CHR 0x0B], [CHR 0x0C], [CHR 0x0D], [CHR 0x20],
      [CHR 0xC2, CHR 0xA0],
      [CHR 0xE1, CHR 0x9A, CHR 0x80],
      [CHR 0xE2, CHR 0x80, CHR 0x80], [CHR 0xE2, CHR 0x80, CHR 0x81],
      [CHR 0xE2, CHR 0x80, CHR 0x82], [CHR 0xE2, CHR 0x80, CHR 0x83],
      [CHR 0xE2, CHR 0x80, CHR 0x84], [CHR 0xE2, CHR 0x80, CHR 0x85],
      [CHR 0xE2, CHR 0x80, CHR 0x86], [CHR 0xE2, CHR 0x80, CHR 0x87],
      [CHR 0xE2, CHR 0x80, CHR 0x88], [CHR 0xE2, CHR 0x80, CHR 0x89],
      [CHR 0xE2, CHR 0x80, CHR 0x8A],
      [CHR 0xE2, CHR 0x80, CHR 0xA8], [CHR 0xE2, CHR 0x80, CHR 0xA9],
      [CHR 0xE2, CHR 0x80, CHR 0xAF],
      [CHR 0xE2, CHR 0x81, CHR 0x9F],
      [CHR 0xE3, CHR 0x80, CHR 0x80],
      [CHR 0xEF, CHR 0xBB, CHR 0xBF]]"

fun strip :: "string list \<Rightarrow> string \<Rightarrow> string" where
  "strip ws (a # b # c # t) =
     (if [a] \<in> set ws then strip ws (b # c # t)
      else if [a, b] \<in> set ws then strip ws (c # t)
      else if [a, b, c] \<in> set ws then strip ws t
      else a # b # c # t)"
| "strip ws [a, b] =
     (if [a] \<in> set ws then strip ws [b]
      else if [a, b] \<in> set ws then []
      else [a, b])"
| "strip ws [a] = (if [a] \<in> set ws then [] else [a])"
| "strip ws [] = []"

definition trim :: "string \<Rightarrow> string" where
  "trim t = rev (strip (map rev white_space) (rev (strip white_space t)))"

text \<open>\<^verbatim>\<open>t.split(',')\<close> and \<^verbatim>\<open>xs.join(sep)\<close>.\<close>

fun split_comma :: "string \<Rightarrow> string list" where
  "split_comma [] = [[]]"
| "split_comma (c # cs) =
     (if c = CHR '','' then [] # split_comma cs
      else (case split_comma cs of
              [] \<Rightarrow> [[c]]
            | w # ws \<Rightarrow> (c # w) # ws))"

fun join :: "string \<Rightarrow> string list \<Rightarrow> string" where
  "join sep [] = []"
| "join sep [x] = x"
| "join sep (x # y # ys) = x @ sep @ join sep (y # ys)"

section \<open>The habit list and the selector\<close>

text \<open>
  The derived values of one habit, lines 170 to 180 of \<^verbatim>\<open>renderHabits\<close>.
\<close>

definition safeTarget :: "habit \<Rightarrow> rat" where
  "safeTarget h = (case target_per_week h of JNum x \<Rightarrow> (if 0 < x then x else 7) | _ \<Rightarrow> 7)"

definition safeStreak :: "habit \<Rightarrow> rat" where
  "safeStreak h = (case streak h of JNum x \<Rightarrow> (if 0 \<le> x then x else 0) | _ \<Rightarrow> 0)"

definition safeBest :: "habit \<Rightarrow> rat" where
  "safeBest h = (case best_streak h of JNum x \<Rightarrow> (if 0 \<le> x then x else 0) | _ \<Rightarrow> 0)"

definition safeScore :: "habit \<Rightarrow> rat" where
  "safeScore h = (case score h of JNum x \<Rightarrow> x | _ \<Rightarrow> 0)"

definition actualWidth :: "habit \<Rightarrow> int" where
  "actualWidth h = min 100 (max 0 (Math_round (safeScore h)))"

definition meta_text :: "(rat \<Rightarrow> string) \<Rightarrow> habit \<Rightarrow> string" where
  "meta_text digits h =
     ''Target: '' @ number_to_string digits (safeTarget h) @ ''/week '' @ bullet @
     '' Streak: '' @ number_to_string digits (safeStreak h) @
     '' (best '' @ number_to_string digits (safeBest h) @ '') '' @ bullet @
     '' Lifetime score: '' @ toFixed1 digits (safeScore h) @ ''%''"

text \<open>
  The list item built for one habit. The width of the ideal bar comes from a floating-point
  division (\<^verbatim>\<open>safeTarget / 7\<close>) and is left out; the two buttons of the item are the handlers
  \<open>toggleHabitCompletion\<close> and \<open>viewProgress_click\<close> below.
\<close>

definition habit_item :: "(rat \<Rightarrow> string) \<Rightarrow> habit \<Rightarrow> habit_li" where
  "habit_item digits h =
     \<lparr>li_class = ''habit-item'',
      li_border_left = ''4px solid '' @ string_or (habit_color h) ''#2f7cff'',
      li_title = habit_name h,
      li_badge_class = ''badge '' @ (if completed h then ''success'' else ''warning''),
      li_badge_text = (if completed h then ''Completed today'' else ''Pending today''),
      li_meta = meta_text digits h,
      li_actual_width = int_to_string (actualWidth h) @ ''%'',
      li_actual_background =
        ''linear-gradient(90deg, '' @ string_or (habit_color h) ''#54e0a6'' @
        '', rgba(84, 224, 166, 0.35))'',
      li_complete_text = (if completed h then ''Undo today'' else ''Mark complete today'')\<rparr>"

definition empty_habits_html :: string where
  "empty_habits_html =
     ''<strong>No habits yet.</strong><p style=\"margin-top:8px;\">'' @
     ''Translate the ideal self into a measurable commitment to track.</p>''"

text \<open>\<^verbatim>\<open>renderHabits(habits)\<close>, lines 154 to 192.\<close>

definition renderHabits :: "env \<Rightarrow> habit list \<Rightarrow> app_state \<Rightarrow> app_state" where
  "renderHabits env habits s =
     (case el_habitList s of
        None \<Rightarrow> s
      | Some old \<Rightarrow>
          if habits = []
          then updateChartVisibility ''empty'' (Some DEFAULT_CHART_MESSAGE)
                 (s\<lparr>el_habitList := Some [EmptyState empty_habits_html]\<rparr>)
          else s\<lparr>el_habitList :=
                    Some (map (\<lambda>h. HabitItem (habit_item (number_digits env) h)) habits)\<rparr>)"

text \<open>
  The loop of \<^verbatim>\<open>updateHabitSelectOptions\<close> (lines 197 to 201): it runs over the habits
  with the options appended so far and the current value of \<^verbatim>\<open>currentHabitId\<close>. The flags
  of an option are the ones the script assigns.
\<close>

fun select_loop ::
  "int option \<Rightarrow> habit list \<Rightarrow> option_el list \<times> int option \<Rightarrow> option_el list \<times> int option"
where
  "select_loop previous [] acc = acc"
| "select_loop previous (h # hs) (opts, cur) =
     (if (truthy previous \<and> previous = Some (habit_id h)) \<or> (\<not> truthy previous \<and> \<not> truthy cur)
      then select_loop previous hs
             (opts @ [\<lparr>option_value = Some (int_to_string (habit_id h)),
                       option_text = habit_name h,
                       option_selected = True, option_disabled = False\<rparr>],
              Some (habit_id h))
      else select_loop previous hs
             (opts @ [\<lparr>option_value = Some (int_to_string (habit_id h)),
                       option_text = habit_name h,
                       option_selected = False, option_disabled = False\<rparr>],
              cur))"

text \<open>The value of an option is its value attribute, or its text without one.\<close>

definition value_of_option :: "option_el \<Rightarrow> string" where
  "value_of_option opt = (case option_value opt of None \<Rightarrow> option_text opt | Some v \<Rightarrow> v)"

text \<open>\<^verbatim>\<open>select.value = v\<close>: the first option with that value is selected and no other.\<close>

fun set_select_value :: "string \<Rightarrow> option_el list \<Rightarrow> option_el list" where
  "set_select_value v [] = []"
| "set_select_value v (opt # opts) =
     (if value_of_option opt = v
      then opt\<lparr>option_selected := True\<rparr> # map (\<lambda>x. x\<lparr>option_selected := False\<rparr>) opts
      else opt\<lparr>option_selected := False\<rparr> # set_select_value v opts)"

definition placeholder_option :: option_el where
  "placeholder_option =
     \<lparr>option_value = None, option_text = ''No habits yet'',
      option_selected = True, option_disabled = True\<rparr>"

text \<open>\<^verbatim>\<open>updateHabitSelectOptions(habits)\<close>, lines 194 to 209.\<close>

definition updateHabitSelectOptions :: "habit list \<Rightarrow> app_state \<Rightarrow> app_state" where
  "updateHabitSelectOptions habits s =
     (case el_habitSelect s of
        None \<Rightarrow> s
      | Some sel \<Rightarrow>
         (let previous = currentHabitId s;
              (opts, cur) = select_loop previous habits ([], currentHabitId s)
          in case habits of
               first # rest \<Rightarrow>
                 (let found = (\<exists>h \<in> set habits. Some (habit_id h) = cur) in
                  if \<not> found
                  then s\<lparr>currentHabitId := Some (habit_id first),
                         el_habitSelect :=
                           Some (sel\<lparr>select_options :=
                                        set_select_value (int_to_string (habit_id first)) opts,
                                      select_disabled := False\<rparr>)\<rparr>
                  else s\<lparr>currentHabitId := cur,
                         el_habitSelect :=
                           Some (sel\<lparr>select_options := opts, select_disabled := False\<rparr>)\<rparr>)
             | [] \<Rightarrow>
                 s\<lparr>currentHabitId := None,
                   el_habitSelect :=
                     Some (sel\<lparr>select_options := opts @ [placeholder_option],
                               select_disabled := True\<rparr>)\<rparr>))"

text \<open>\<^verbatim>\<open>setupRangeButtons()\<close>, lines 246 to 249; the click handler of a button is
  \<open>rangeButton_click\<close> below.\<close>

definition setupRangeButtons :: "app_state \<Rightarrow> app_state" where
  "setupRangeButtons s =
     (case el_rangeButtons s of
        None \<Rightarrow> s
      | Some old \<Rightarrow>
          s\<lparr>el_rangeButtons :=
               Some (map (\<lambda>days. \<lparr>btn_text = int_to_string days @ '' days'',
                                  btn_active = (days = currentRange s),
                                  btn_disabled = (\<not> truthy (currentHabitId s))\<rparr>)
                       chartRanges)\<rparr>)"

section \<open>The progress chart orchestrator\<close>

definition send :: "request \<Rightarrow> app_state \<Rightarrow> app_state" where
  "send r s = s\<lparr>requests := requests s @ [r]\<rparr>"

text \<open>
  The \<^verbatim>\<open>try\<close> block of \<^verbatim>\<open>loadHabitProgress\<close>, lines 224 to 242: \<open>Inl\<close> is a throw, with
  the error and the state reached when it is thrown; \<open>Inr\<close> is the state when the block
  ends, by its last statement or by the \<^verbatim>\<open>return\<close> of line 226. The labels are
  \<^verbatim>\<open>data.dates.map(d => d.slice(5))\<close>, which throws when \<^verbatim>\<open>data.dates\<close> is missing, and the
  argument of the constructor reads \<^verbatim>\<open>data.habit.color\<close>, which throws when \<^verbatim>\<open>data.habit\<close>
  is missing. The colours and options read from the style sheet are not part of a chart
  here.
\<close>

definition loadHabitProgress_try ::
  "env \<Rightarrow> int \<Rightarrow> app_state \<Rightarrow> (js_error \<times> app_state) + app_state"
where
  "loadHabitProgress_try env cur s =
     (let n = length (requests s);
          s1 = send (GET_progress cur (currentRange s)) s
      in case get_progress env n of
           Rejected \<Rightarrow> Inl (NetworkFailure, s1)
         | Response ok body \<Rightarrow>
             if \<not> ok then Inl (Error ''Failed to fetch progress'', s1)
             else
               (case body of
                  None \<Rightarrow> Inl (SyntaxError, s1)
                | Some data \<Rightarrow>
                    if el_habitChart s1 = None \<or> \<not> chart_defined env
                    then Inr (showToast ''Progress chart unavailable right now'' ''error''
                                (updateChartVisibility ''error'' (Some ''Chart unavailable.'') s1))
                    else
                      (let s2 = (case habitChart s1 of None \<Rightarrow> s1 | Some h \<Rightarrow> destroy h s1)
                       in case data_dates data of
                            None \<Rightarrow> Inl (TypeError, s2)
                          | Some ds \<Rightarrow>
                              (case data_habit data of
                                 None \<Rightarrow> Inl (TypeError, s2)
                               | Some hb \<Rightarrow>
                                   if \<not> chart_constructs env n then Inl (ChartError, s2)
                                   else
                                     Inr (updateChartVisibility ''ready'' None
                                            (s2\<lparr>charts := charts s2 @
                                                   [\<lparr>chart_labels = map (drop 5) ds,
                                                     chart_ideal = data_ideal data,
                                                     chart_actual = data_actual data,
                                                     chart_color =
                                                       string_or (snapshot_color hb) ''#54e0a6'',
                                                     chart_title =
                                                       snapshot_name hb @ '' ('' @
                                                       jsval_to_string (number_digits env)
                                                         (snapshot_target hb) @
                                                       ''/week ideal)'',
                                                     chart_destroyed = False\<rparr>],
                                                 habitChart := Some (length (charts s2))\<rparr>))))))"

text \<open>\<^verbatim>\<open>loadHabitProgress()\<close>, lines 221 to 244. Its first statement returns on a falsy
  identifier: \<^verbatim>\<open>null\<close> or \<open>0\<close>.\<close>

definition loadHabitProgress :: "env \<Rightarrow> app_state \<Rightarrow> app_state" where
  "loadHabitProgress env s =
     (case currentHabitId s of
        None \<Rightarrow> s
      | Some cur \<Rightarrow>
          if cur = 0 then s
          else
            (case loadHabitProgress_try env cur
                    (updateChartVisibility ''loading'' (Some ''Loading progress...'') s) of
               Inr s' \<Rightarrow> s'
             | Inl (err, s') \<Rightarrow>
                 showToast ''Could not load progress'' ''error''
                   (updateChartVisibility ''error'' (Some ''Could not load progress right now.'')
                      (console_error err s'))))"

text \<open>A call of \<^verbatim>\<open>loadHabitProgress()\<close>: the invocation is recorded, then the body runs.\<close>

definition call_loadHabitProgress :: "env \<Rightarrow> app_state \<Rightarrow> app_state" where
  "call_loadHabitProgress env s =
     loadHabitProgress env
       (s\<lparr>progress_calls := progress_calls s @ [(currentHabitId s, currentRange s)]\<rparr>)"

section \<open>Loading and changing the habits\<close>

text \<open>
  An async function runs at once up to its first \<^verbatim>\<open>await\<close>: it issues its request, and the
  rest of it runs when the answer has arrived. For the three loads that the page starts
  together (line 259) the rest is a function of its own: it is given the index \<open>k\<close> of the
  request whose answer it waited for, and the state in which it goes on.

  \<^verbatim>\<open>ensureDemoSeed()\<close>, lines 10 to 19: its result and the requests it issued. A failure of
  its request makes it return \<^verbatim>\<open>false\<close>, and the outcome of the reset request is not read:
  nothing is logged and nothing is shown.
\<close>

definition ensureDemoSeed_resume :: "env \<Rightarrow> nat \<Rightarrow> app_state \<Rightarrow> bool \<times> app_state" where
  "ensureDemoSeed_resume env k s =
     (case get_habits env k of
        Rejected \<Rightarrow> (False, s)
      | Response ok body \<Rightarrow>
          if \<not> ok then (False, s)
          else
            (case body of
               None \<Rightarrow> (False, s)
             | Some list \<Rightarrow>
                 if list \<noteq> [] then (True, s) else (True, send POST_demo_reset s)))"

definition ensureDemoSeed :: "env \<Rightarrow> app_state \<Rightarrow> bool \<times> app_state" where
  "ensureDemoSeed env s = ensureDemoSeed_resume env (length (requests s)) (send GET_habits s)"

text \<open>
  The \<^verbatim>\<open>try\<close> block of \<^verbatim>\<open>loadHabits\<close>, lines 213 to 217, from the answer to the request of
  \<^verbatim>\<open>ensureDemoSeed\<close> (the request \<open>k\<close>) on: \<open>Inl\<close> is a throw, with the error and the state
  reached when it is thrown.
\<close>

definition loadHabits_try ::
  "env \<Rightarrow> nat \<Rightarrow> app_state \<Rightarrow> (js_error \<times> app_state) + app_state"
where
  "loadHabits_try env k s =
     (let (seeded, s1) = ensureDemoSeed_resume env k s;
          n = length (requests s1);
          s2 = send GET_habits s1
      in case get_habits env n of
           Rejected \<Rightarrow> Inl (NetworkFailure, s2)
         | Response ok body \<Rightarrow>
             if \<not> ok then Inl (Error ''Failed to fetch habits'', s2)
             else
               (case body of
                  None \<Rightarrow> Inl (SyntaxError, s2)
                | Some habits \<Rightarrow>
                    (let s3 = setupRangeButtons
                                (updateHabitSelectOptions habits (renderHabits env habits s2))
                     in if truthy (currentHabitId s3)
                        then Inr (call_loadHabitProgress env s3)
                        else Inr (updateChartVisibility ''empty''
                                    (Some DEFAULT_CHART_MESSAGE) s3))))"

definition loadHabits_resume :: "env \<Rightarrow> nat \<Rightarrow> app_state \<Rightarrow> app_state" where
  "loadHabits_resume env k s =
     (case loadHabits_try env k s of
        Inr s' \<Rightarrow> s'
      | Inl (err, s') \<Rightarrow>
          updateChartVisibility ''error'' (Some ''Could not load habits.'')
            (showToast ''Could not load habits'' ''error'' (console_error err s')))"

text \<open>\<^verbatim>\<open>loadHabits()\<close>, lines 211 to 219, awaited: the request of \<^verbatim>\<open>ensureDemoSeed\<close> is
  issued, and the rest runs on its answer.\<close>

definition loadHabits :: "env \<Rightarrow> app_state \<Rightarrow> app_state" where
  "loadHabits env s = loadHabits_resume env (length (requests s)) (send GET_habits s)"

text \<open>
  \<^verbatim>\<open>addHabit(event)\<close>, lines 128 to 144. \<open>name\<close> is the trimmed value of the name field; the
  body of the response is the \<^verbatim>\<open>id\<close> of the created habit, if it has one. The fields of
  the form are not part of the state.
\<close>

definition addHabit_try :: "env \<Rightarrow> app_state \<Rightarrow> (js_error \<times> app_state) + app_state" where
  "addHabit_try env s =
     (let n = length (requests s);
          s1 = send POST_habits s
      in case post_habits env n of
           Rejected \<Rightarrow> Inl (NetworkFailure, s1)
         | Response ok body \<Rightarrow>
             if \<not> ok then Inl (Error ''Failed to add habit'', s1)
             else
               (case body of
                  None \<Rightarrow> Inl (SyntaxError, s1)
                | Some created_id \<Rightarrow>
                    (let s2 = s1\<lparr>currentHabitId :=
                                   (if truthy created_id then created_id else currentHabitId s1)\<rparr>;
                         s3 = showToast ''Habit added'' ''success'' s2;
                         s4 = loadHabits env s3
                     in if truthy (currentHabitId s4)
                        then Inr (call_loadHabitProgress env s4)
                        else Inr s4)))"

definition addHabit :: "env \<Rightarrow> string \<Rightarrow> app_state \<Rightarrow> app_state" where
  "addHabit env name s =
     (if name = [] then s
      else
        (case addHabit_try env s of
           Inr s' \<Rightarrow> s'
         | Inl (err, s') \<Rightarrow> showToast ''Could not add habit'' ''error'' (console_error err s')))"

text \<open>\<^verbatim>\<open>toggleHabitCompletion(habit)\<close>, lines 146 to 152: its \<^verbatim>\<open>try\<close> block, then the
  function.\<close>

definition toggleHabitCompletion_try ::
  "env \<Rightarrow> habit \<Rightarrow> app_state \<Rightarrow> (js_error \<times> app_state) + app_state"
where
  "toggleHabitCompletion_try env h s =
     (let n = length (requests s);
          s1 = send (PUT_habit (habit_id h)) s
      in case put_habit env n of
           Rejected \<Rightarrow> Inl (NetworkFailure, s1)
         | Response ok body \<Rightarrow>
             if \<not> ok then Inl (Error ''Failed to update habit'', s1)
             else
               (let s2 = loadHabits env s1
                in if currentHabitId s2 = Some (habit_id h)
                   then Inr (call_loadHabitProgress env s2)
                   else Inr s2))"

definition toggleHabitCompletion :: "env \<Rightarrow> habit \<Rightarrow> app_state \<Rightarrow> app_state" where
  "toggleHabitCompletion env h s =
     (case toggleHabitCompletion_try env h s of
        Inr s' \<Rightarrow> s'
      | Inl (err, s') \<Rightarrow> showToast ''Could not update habit'' ''error'' (console_error err s'))"

text \<open>The click handlers of lines 188 and 248, and the change handler of the selector
  (line 263), where \<open>nextId\<close> is the result of \<^verbatim>\<open>parseInt\<close> and \<open>None\<close> is \<^verbatim>\<open>NaN\<close>.\<close>

definition viewProgress_click :: "env \<Rightarrow> habit \<Rightarrow> habit list \<Rightarrow> app_state \<Rightarrow> app_state" where
  "viewProgress_click env h habits s =
     call_loadHabitProgress env
       (updateHabitSelectOptions habits (s\<lparr>currentHabitId := Some (habit_id h)\<rparr>))"

definition rangeButton_click :: "env \<Rightarrow> int \<Rightarrow> app_state \<Rightarrow> app_state" where
  "rangeButton_click env days s =
     call_loadHabitProgress env (setupRangeButtons (s\<lparr>currentRange := days\<rparr>))"

definition habitSelect_change :: "env \<Rightarrow> int option \<Rightarrow> app_state \<Rightarrow> app_state" where
  "habitSelect_change env nextId s =
     (case nextId of
        None \<Rightarrow> s
      | Some i \<Rightarrow> call_loadHabitProgress env (s\<lparr>currentHabitId := Some i\<rparr>))"

section \<open>The ideal-self panel and the journal panel\<close>

text \<open>\<^verbatim>\<open>renderIdealSelfSummary(vision, focusAreas)\<close>, lines 65 to 74.\<close>

definition renderIdealSelfSummary :: "string \<Rightarrow> string list \<Rightarrow> app_state \<Rightarrow> app_state" where
  "renderIdealSelfSummary v focusAreas s =
     (case el_idealSelfSummary s of
        None \<Rightarrow> s
      | Some old \<Rightarrow>
         (let hasAny = ((v \<noteq> [] \<and> trim v \<noteq> []) \<or> focusAreas \<noteq> []);
              s1 = s\<lparr>el_idealSelfSummary := Some (if hasAny then ''block'' else ''none'')\<rparr>;
              s2 = (case el_idealVisionCopy s1 of
                      None \<Rightarrow> s1
                    | Some c \<Rightarrow> s1\<lparr>el_idealVisionCopy := Some v\<rparr>)
          in case el_idealFocusCopy s2 of
               None \<Rightarrow> s2
             | Some c \<Rightarrow>
                 s2\<lparr>el_idealFocusCopy :=
                      Some (if focusAreas \<noteq> []
                            then ''Focus areas: '' @ join ('' '' @ bullet @ '' '') focusAreas
                            else [])\<rparr>))"

text \<open>
  \<^verbatim>\<open>loadIdealSelf()\<close>, lines 52 to 63: its \<^verbatim>\<open>try\<close> block from the answer to its request
  (the request \<open>k\<close>) on, the rest of the function with its \<^verbatim>\<open>catch\<close> block, which only
  logs, and the function awaited.
\<close>

definition loadIdealSelf_try ::
  "env \<Rightarrow> nat \<Rightarrow> app_state \<Rightarrow> (js_error \<times> app_state) + app_state"
where
  "loadIdealSelf_try env k s =
     (case get_idealself env k of
        Rejected \<Rightarrow> Inl (NetworkFailure, s)
      | Response ok body \<Rightarrow>
          if \<not> ok then Inl (Error ''Failed to load ideal self'', s)
          else
            (case body of
               None \<Rightarrow> Inl (SyntaxError, s)
             | Some data \<Rightarrow>
                 (let s2 = renderIdealSelfSummary (string_or (vision data) [])
                             (case focus_areas data of None \<Rightarrow> [] | Some fs \<Rightarrow> fs) s;
                      s3 = (if el_idealVision s2 \<noteq> None \<and> string_or (vision data) [] \<noteq> []
                            then s2\<lparr>el_idealVision := vision data\<rparr>
                            else s2)
                  in case focus_areas data of
                       None \<Rightarrow> Inr s3
                     | Some fs \<Rightarrow>
                         if el_idealFocusAreas s3 \<noteq> None
                         then Inr (s3\<lparr>el_idealFocusAreas := Some (join '', '' fs)\<rparr>)
                         else Inr s3)))"

definition loadIdealSelf_resume :: "env \<Rightarrow> nat \<Rightarrow> app_state \<Rightarrow> app_state" where
  "loadIdealSelf_resume env k s =
     (case loadIdealSelf_try env k s of
        Inr s' \<Rightarrow> s'
      | Inl (err, s') \<Rightarrow> console_error err s')"

definition loadIdealSelf :: "env \<Rightarrow> app_state \<Rightarrow> app_state" where
  "loadIdealSelf env s =
     loadIdealSelf_resume env (length (requests s)) (send GET_idealself s)"

text \<open>\<^verbatim>\<open>saveIdealSelf(event)\<close>, lines 76 to 87: the values read from the form and the
  \<^verbatim>\<open>try\<close> block, then the function.\<close>

definition saveIdealSelf_try :: "env \<Rightarrow> app_state \<Rightarrow> (js_error \<times> app_state) + app_state" where
  "saveIdealSelf_try env s =
     (let v = trim (string_or (el_idealVision s) []);
          raw = string_or (el_idealFocusAreas s) [];
          fs = filter (\<lambda>w. w \<noteq> []) (map trim (split_comma raw));
          n = length (requests s);
          s1 = send POST_idealself s
      in case post_idealself env n of
           Rejected \<Rightarrow> Inl (NetworkFailure, s1)
         | Response ok body \<Rightarrow>
             if \<not> ok then Inl (Error ''Save failed'', s1)
             else Inr (showToast ''Ideal self updated'' ''success''
                         (renderIdealSelfSummary v fs s1)))"

definition saveIdealSelf :: "env \<Rightarrow> app_state \<Rightarrow> app_state" where
  "saveIdealSelf env s =
     (case saveIdealSelf_try env s of
        Inr s' \<Rightarrow> s'
      | Inl (err, s') \<Rightarrow>
          showToast ''Could not save ideal self'' ''error'' (console_error err s'))"

text \<open>
  \<^verbatim>\<open>loadJournalEntries()\<close>, lines 104 to 125: its \<^verbatim>\<open>try\<close> block from the answer to its
  request (the request \<open>k\<close>) on, the rest of the function with its \<^verbatim>\<open>catch\<close> block, and the
  function awaited. The time stamp of an entry is the instant \<^verbatim>\<open>new Date\<close> reads from it;
  the sort of the script is stable and puts the newest first.
\<close>

definition loadJournalEntries_try ::
  "env \<Rightarrow> nat \<Rightarrow> app_state \<Rightarrow> (js_error \<times> app_state) + app_state"
where
  "loadJournalEntries_try env k s =
     (case get_journal env k of
        Rejected \<Rightarrow> Inl (NetworkFailure, s)
      | Response ok body \<Rightarrow>
          if \<not> ok then Inl (Error ''Failed to fetch journal'', s)
          else
            (case body of
               None \<Rightarrow> Inl (SyntaxError, s)
             | Some unsorted \<Rightarrow>
                 (let entries = sort_key (\<lambda>e. - entry_timestamp e) unsorted
                  in case el_journalEntries s of
                       None \<Rightarrow> Inr s
                     | Some old \<Rightarrow>
                         if entries = []
                         then Inr (s\<lparr>el_journalEntries :=
                                      Some [EmptyJournal
                                        (''No journal entries yet. Capture a reflection '' @
                                         ''to start building insights.'')]\<rparr>)
                         else Inr (s\<lparr>el_journalEntries :=
                                      Some (map (\<lambda>e. JournalItem (entry_timestamp e)
                                                          (entry_content e)) entries)\<rparr>))))"

definition loadJournalEntries_resume :: "env \<Rightarrow> nat \<Rightarrow> app_state \<Rightarrow> app_state" where
  "loadJournalEntries_resume env k s =
     (case loadJournalEntries_try env k s of
        Inr s' \<Rightarrow> s'
      | Inl (err, s') \<Rightarrow>
          showToast ''Could not load journal entries'' ''error'' (console_error err s'))"

definition loadJournalEntries :: "env \<Rightarrow> app_state \<Rightarrow> app_state" where
  "loadJournalEntries env s =
     loadJournalEntries_resume env (length (requests s)) (send GET_journal s)"

text \<open>\<^verbatim>\<open>addJournalEntry(event)\<close>, lines 90 to 102: its \<^verbatim>\<open>try\<close> block, then the function,
  which returns at line 94 when the trimmed content is empty.\<close>

definition addJournalEntry_try ::
  "env \<Rightarrow> app_state \<Rightarrow> (js_error \<times> app_state) + app_state"
where
  "addJournalEntry_try env s =
     (let n = length (requests s);
          s1 = send POST_journal s
      in case post_journal env n of
           Rejected \<Rightarrow> Inl (NetworkFailure, s1)
         | Response ok body \<Rightarrow>
             if \<not> ok then Inl (Error ''Failed to save entry'', s1)
             else
               (let s2 = (case el_journalInput s1 of
                            None \<Rightarrow> s1
                          | Some old \<Rightarrow> s1\<lparr>el_journalInput := Some []\<rparr>)
                in Inr (loadJournalEntries env
                          (showToast ''Journal entry saved'' ''success'' s2))))"

definition addJournalEntry :: "env \<Rightarrow> app_state \<Rightarrow> app_state" where
  "addJournalEntry env s =
     (let content = trim (string_or (el_journalInput s) []) in
      if content = [] then s
      else
        (case addJournalEntry_try env s of
           Inr s' \<Rightarrow> s'
         | Inl (err, s') \<Rightarrow>
             showToast ''Could not save entry'' ''error'' (console_error err s')))"

section \<open>Start of the page and the demo button\<close>

text \<open>The click handler of the demo button, lines 265 to 267: its \<^verbatim>\<open>try\<close> block, then the
  handler. The \<^verbatim>\<open>ok\<close> flag of the response is not read, so only a rejected request is a
  failure here.\<close>

definition demoSeedBtn_try :: "env \<Rightarrow> app_state \<Rightarrow> (js_error \<times> app_state) + app_state" where
  "demoSeedBtn_try env s =
     (let n = length (requests s);
          s1 = send POST_demo_reset s
      in case post_demo_reset env n of
           Rejected \<Rightarrow> Inl (NetworkFailure, s1)
         | Response ok body \<Rightarrow>
             Inr (loadJournalEntries env
                    (loadHabits env (showToast ''Demo data loaded'' ''success'' s1))))"

definition demoSeedBtn_click :: "env \<Rightarrow> app_state \<Rightarrow> app_state" where
  "demoSeedBtn_click env s =
     (case demoSeedBtn_try env s of
        Inr s' \<Rightarrow> s'
      | Inl (err, s') \<Rightarrow>
          showToast ''Could not load demo data'' ''error'' (console_error err s'))"

text \<open>
  The \<^verbatim>\<open>DOMContentLoaded\<close> handler, lines 257 to 280, without the navigation and the
  theme. Line 259 starts the three loads without awaiting them: each issues its request at
  once, so the requests go out in the order ideal self, habits (the request of
  \<^verbatim>\<open>ensureDemoSeed\<close>), journal, before any answer is read. The rest of each load runs when
  its answer arrives, in the order \<open>arrival\<close>, which the network decides: a list of the three
  loads, each once. The rest of \<^verbatim>\<open>loadHabits\<close> runs here in one piece. The other two issue
  no further request and touch only their own elements, the console and the toasts, while
  \<^verbatim>\<open>loadHabits\<close> writes to the console and the toasts at one point only; so one of them
  running between two steps of \<^verbatim>\<open>loadHabits\<close> ends in the state of running it before or
  after.
\<close>

datatype load = IdealSelfLoad | HabitsLoad | JournalLoad

fun resume :: "env \<Rightarrow> nat \<Rightarrow> load \<Rightarrow> app_state \<Rightarrow> app_state" where
  "resume env n IdealSelfLoad s = loadIdealSelf_resume env n s"
| "resume env n HabitsLoad s = loadHabits_resume env (n + 1) s"
| "resume env n JournalLoad s = loadJournalEntries_resume env (n + 2) s"

definition DOMContentLoaded :: "env \<Rightarrow> load list \<Rightarrow> app_state \<Rightarrow> app_state" where
  "DOMContentLoaded env arrival s =
     (let s1 = updateChartVisibility ''empty'' (Some DEFAULT_CHART_MESSAGE)
                 (setupRangeButtons s);
          n = length (requests s1);
          s2 = send GET_journal (send GET_habits (send GET_idealself s1))
      in fold (resume env n) arrival s2)"

section \<open>Notions used to state the properties\<close>

text \<open>The placeholder element after \<open>updateChartVisibility state message\<close>.\<close>

definition shown_placeholder :: "string \<Rightarrow> string option \<Rightarrow> placeholder_el \<Rightarrow> placeholder_el" where
  "shown_placeholder state message ph =
     ph\<lparr>textContent :=
          (case message of None \<Rightarrow> textContent ph
           | Some m \<Rightarrow> if m = [] then textContent ph else m),
        dataset_state := Some state,
        aria_hidden := Some (if state = ''ready'' then ''true'' else ''false''),
        classList := (if state = ''ready'' then class_add ''hidden'' (classList ph)
                      else class_remove ''hidden'' (classList ph))\<rparr>"

text \<open>
  The chart instances that are live (built and not destroyed). \<open>chart_inv\<close> is the
  invariant of the chart handle: it refers to an instance, and no other instance is live.
\<close>

definition live_charts :: "app_state \<Rightarrow> chart list" where
  "live_charts s = filter (\<lambda>c. \<not> chart_destroyed c) (charts s)"

definition chart_inv :: "app_state \<Rightarrow> bool" where
  "chart_inv s =
     (case habitChart s of
        None \<Rightarrow> live_charts s = []
      | Some h \<Rightarrow> h < length (charts s) \<and> live_charts (destroy h s) = [])"

text \<open>The chart area shows an error: what a failed load leaves behind.\<close>

definition shows_error :: "string \<Rightarrow> string \<Rightarrow> toast_el list \<Rightarrow> app_state \<Rightarrow> bool" where
  "shows_error chart_message toast_message before s =
     (visibility_state s = Some ''error'' \<and> placeholder_text s = chart_message \<and>
      placeholder_visible s \<and> \<not> canvas_visible s \<and>
      toasts s = before @ [\<lparr>toast_classes = [''toast'', ''error''], toast_text = toast_message\<rparr>] \<and>
      habitChart s = None \<and> live_charts s = [])"

text \<open>
  The ways \<^verbatim>\<open>loadHabitProgress\<close> can fail when it issues its request from state \<open>s\<close> on a
  page that has the canvas: transport error, non-success status, a body that is not JSON,
  no \<^verbatim>\<open>Chart\<close> global, a payload without its dates or its habit, a constructor that throws.
\<close>

datatype progress_failure =
    TransportError | HttpStatus | BodyNotJson | ChartMissing | MalformedPayload
  | ConstructorThrows

definition progress_failure :: "env \<Rightarrow> app_state \<Rightarrow> progress_failure option" where
  "progress_failure env s =
     (let n = length (requests s)
      in case get_progress env n of
           Rejected \<Rightarrow> Some TransportError
         | Response ok body \<Rightarrow>
             if \<not> ok then Some HttpStatus
             else
               (case body of
                  None \<Rightarrow> Some BodyNotJson
                | Some data \<Rightarrow>
                    if \<not> chart_defined env then Some ChartMissing
                    else if data_dates data = None \<or> data_habit data = None
                    then Some MalformedPayload
                    else if \<not> chart_constructs env n then Some ConstructorThrows
                    else None))"

text \<open>
  The collection \<^verbatim>\<open>loadHabits\<close> obtains when it is awaited and \<open>n\<close> requests have been
  issued before it: \<^verbatim>\<open>ensureDemoSeed\<close> issues one or two requests first (\<open>seed_requests\<close>,
  from the answer to the first of them, the request \<open>n\<close>).
\<close>

definition seed_requests :: "env \<Rightarrow> nat \<Rightarrow> nat" where
  "seed_requests env n =
     (case get_habits env n of
        Rejected \<Rightarrow> 1
      | Response ok body \<Rightarrow> if ok \<and> body = Some [] then 2 else 1)"

definition fetched_habits :: "env \<Rightarrow> nat \<Rightarrow> habit list option" where
  "fetched_habits env n =
     (case get_habits env (n + seed_requests env n) of
        Rejected \<Rightarrow> None
      | Response ok body \<Rightarrow> if ok then body else None)"



text \<open>
  The operations that go through the gateway (\<open>DemoSeed\<close> is the click on the demo
  button); \<open>attempt\<close> is an operation up to its \<^verbatim>\<open>catch\<close> block: the state it ends in when
  nothing is thrown, or the error thrown in its \<^verbatim>\<open>try\<close> block with the state at that
  point; \<open>catch_block\<close> is the \<^verbatim>\<open>catch\<close> block of the operation.
\<close>

datatype operation =
    LoadIdealSelf | SaveIdealSelf | LoadJournalEntries | AddJournalEntry
  | LoadHabits | AddHabit string | ToggleHabitCompletion habit | LoadHabitProgress
  | DemoSeed

fun run :: "env \<Rightarrow> operation \<Rightarrow> app_state \<Rightarrow> app_state" where
  "run env LoadIdealSelf s = loadIdealSelf env s"
| "run env SaveIdealSelf s = saveIdealSelf env s"
| "run env LoadJournalEntries s = loadJournalEntries env s"
| "run env AddJournalEntry s = addJournalEntry env s"
| "run env LoadHabits s = loadHabits env s"
| "run env (AddHabit name) s = addHabit env name s"
| "run env (ToggleHabitCompletion h) s = toggleHabitCompletion env h s"
| "run env LoadHabitProgress s = loadHabitProgress env s"
| "run env DemoSeed s = demoSeedBtn_click env s"

fun attempt :: "env \<Rightarrow> operation \<Rightarrow> app_state \<Rightarrow> (js_error \<times> app_state) + app_state" where
  "attempt env LoadIdealSelf s =
     loadIdealSelf_try env (length (requests s)) (send GET_idealself s)"
| "attempt env SaveIdealSelf s = saveIdealSelf_try env s"
| "attempt env LoadJournalEntries s =
     loadJournalEntries_try env (length (requests s)) (send GET_journal s)"
| "attempt env AddJournalEntry s =
     (if trim (string_or (el_journalInput s) []) = [] then Inr s
      else addJournalEntry_try env s)"
| "attempt env LoadHabits s = loadHabits_try env (length (requests s)) (send GET_habits s)"
| "attempt env (AddHabit name) s = (if name = [] then Inr s else addHabit_try env s)"
| "attempt env (ToggleHabitCompletion h) s = toggleHabitCompletion_try env h s"
| "attempt env LoadHabitProgress s =
     (case currentHabitId s of
        None \<Rightarrow> Inr s
      | Some cur \<Rightarrow>
          if cur = 0 then Inr s
          else loadHabitProgress_try env cur
                 (updateChartVisibility ''loading'' (Some ''Loading progress...'') s))"
| "attempt env DemoSeed s = demoSeedBtn_try env s"

fun catch_block :: "operation \<Rightarrow> js_error \<Rightarrow> app_state \<Rightarrow> app_state" where
  "catch_block LoadIdealSelf err s = console_error err s"
| "catch_block SaveIdealSelf err s =
     showToast ''Could not save ideal self'' ''error'' (console_error err s)"
| "catch_block LoadJournalEntries err s =
     showToast ''Could not load journal entries'' ''error'' (console_error err s)"
| "catch_block AddJournalEntry err s =
     showToast ''Could not save entry'' ''error'' (console_error err s)"
| "catch_block LoadHabits err s =
     updateChartVisibility ''error'' (Some ''Could not load habits.'')
       (showToast ''Could not load habits'' ''error'' (console_error err s))"
| "catch_block (AddHabit name) err s =
     showToast ''Could not add habit'' ''error'' (console_error err s)"
| "catch_block (ToggleHabitCompletion h) err s =
     showToast ''Could not update habit'' ''error'' (console_error err s)"
| "catch_block LoadHabitProgress err s =
     showToast ''Could not load progress'' ''error''
       (updateChartVisibility ''error'' (Some ''Could not load progress right now.'')
          (console_error err s))"
| "catch_block DemoSeed err s =
     showToast ''Could not load demo data'' ''error'' (console_error err s)"

text \<open>
  The failure of the request an operation issues itself: a transport error, a non-success
  status, or a body it reads that is not JSON (\<open>response_failure\<close>); the demo button does
  not read the status. Then the messages of the \<^verbatim>\<open>catch\<close> blocks: the toast, and the
  message of the chart area.
\<close>

definition response_failure :: "string \<Rightarrow> bool \<Rightarrow> 'b fetch_result \<Rightarrow> js_error option" where
  "response_failure msg reads_body r =
     (case r of
        Rejected \<Rightarrow> Some NetworkFailure
      | Response ok body \<Rightarrow>
          if \<not> ok then Some (Error msg)
          else if reads_body \<and> body = None then Some SyntaxError
          else None)"

fun request_failure :: "env \<Rightarrow> operation \<Rightarrow> app_state \<Rightarrow> js_error option" where
  "request_failure env LoadIdealSelf s =
     response_failure ''Failed to load ideal self'' True (get_idealself env (length (requests s)))"
| "request_failure env SaveIdealSelf s =
     response_failure ''Save failed'' False (post_idealself env (length (requests s)))"
| "request_failure env LoadJournalEntries s =
     response_failure ''Failed to fetch journal'' True (get_journal env (length (requests s)))"
| "request_failure env AddJournalEntry s =
     (if trim (string_or (el_journalInput s) []) = [] then None
      else response_failure ''Failed to save entry'' False
             (post_journal env (length (requests s))))"
| "request_failure env LoadHabits s =
     response_failure ''Failed to fetch habits'' True
       (get_habits env (length (requests s) + seed_requests env (length (requests s))))"
| "request_failure env (AddHabit name) s =
     (if name = [] then None
      else response_failure ''Failed to add habit'' True (post_habits env (length (requests s))))"
| "request_failure env (ToggleHabitCompletion h) s =
     response_failure ''Failed to update habit'' False (put_habit env (length (requests s)))"
| "request_failure env LoadHabitProgress s =
     (if truthy (currentHabitId s)
      then response_failure ''Failed to fetch progress'' True
             (get_progress env (length (requests s)))
      else None)"
| "request_failure env DemoSeed s =
     (case post_demo_reset env (length (requests s)) of
        Rejected \<Rightarrow> Some NetworkFailure
      | Response ok body \<Rightarrow> None)"

fun failure_toast :: "operation \<Rightarrow> string option" where
  "failure_toast LoadIdealSelf = None"
| "failure_toast SaveIdealSelf = Some ''Could not save ideal self''"
| "failure_toast LoadJournalEntries = Some ''Could not load journal entries''"
| "failure_toast AddJournalEntry = Some ''Could not save entry''"
| "failure_toast LoadHabits = Some ''Could not load habits''"
| "failure_toast (AddHabit name) = Some ''Could not add habit''"
| "failure_toast (ToggleHabitCompletion h) = Some ''Could not update habit''"
| "failure_toast LoadHabitProgress = Some ''Could not load progress''"
| "failure_toast DemoSeed = Some ''Could not load demo data''"

fun failure_chart_message :: "operation \<Rightarrow> string option" where
  "failure_chart_message LoadHabits = Some ''Could not load habits.''"
| "failure_chart_message LoadHabitProgress = Some ''Could not load progress right now.''"
| "failure_chart_message op = None"

definition error_toast :: "string \<Rightarrow> toast_el" where
  "error_toast m = \<lparr>toast_classes = [''toast'', ''error''], toast_text = m\<rparr>"

text \<open>
  The request of \<^verbatim>\<open>ensureDemoSeed\<close> fails when \<open>n\<close> requests have been issued before it:
  it is rejected, its status is not a success, or its body is not JSON.
\<close>

definition seed_check_fails :: "env \<Rightarrow> nat \<Rightarrow> bool" where
  "seed_check_fails env n =
     (case get_habits env n of
        Rejected \<Rightarrow> True
      | Response ok body \<Rightarrow> \<not> ok \<or> body = None)"

section \<open>A page, two servers and some habits, for the examples\<close>

text \<open>The page as the script finds it: every element present and empty, the module
  variables at their initial values.\<close>

definition page :: app_state where
  "page =
     \<lparr>habitChart = None, currentHabitId = None, currentRange = 30, charts = [],
      el_habitChart = Some \<lparr>style_display = [], canvas_aria_hidden = None\<rparr>,
      el_chartEmptyState =
        Some \<lparr>textContent = [], dataset_state = None, aria_hidden = None, classList = []\<rparr>,
      el_toastContainer = Some [],
      el_habitSelect = Some \<lparr>select_options = [], select_disabled = False\<rparr>,
      el_habitList = Some [],
      el_rangeButtons = Some [],
      el_idealSelfSummary = Some [],
      el_idealVisionCopy = Some [],
      el_idealFocusCopy = Some [],
      el_idealVision = Some [],
      el_idealFocusAreas = Some [],
      el_journalInput = Some ''Slept well'',
      el_journalEntries = Some [],
      requests = [], console = [], progress_calls = []\<rparr>"

text \<open>The same page once a chart has been drawn for the habit 1.\<close>

definition page_charted :: app_state where
  "page_charted =
     page\<lparr>currentHabitId := Some 1, habitChart := Some 0,
          charts := [\<lparr>chart_labels = [''05-01'', ''05-02''], chart_ideal = [5 / 7, 10 / 7],
                      chart_actual = [1, 1], chart_color = ''#2f7cff'',
                      chart_title = ''Meditate (5/week ideal)'', chart_destroyed = False\<rparr>]\<rparr>"

definition meditate :: habit where
  "meditate =
     \<lparr>habit_id = 1, habit_name = ''Meditate'', habit_color = Some ''#2f7cff'',
      target_per_week = JNum 5, completed = False, streak = JNum 3, best_streak = JNum 4,
      score = JNum (171 / 2)\<rparr>"

definition bare_habit :: habit where
  "bare_habit =
     \<lparr>habit_id = 2, habit_name = ''Read'', habit_color = None,
      target_per_week = JUndefined, completed = False, streak = JUndefined,
      best_streak = JUndefined, score = JUndefined\<rparr>"

definition odd_habit :: habit where
  "odd_habit =
     \<lparr>habit_id = 3, habit_name = ''Write'', habit_color = Some [],
      target_per_week = JNum 0, completed = True, streak = JNum (- 1),
      best_streak = JStr ''4'', score = JNum (341 / 4)\<rparr>"

definition habit_zero :: habit where
  "habit_zero = meditate\<lparr>habit_id := 0, habit_name := ''Stretch''\<rparr>"

definition habit_five :: habit where
  "habit_five = meditate\<lparr>habit_id := 5, habit_name := ''Walk''\<rparr>"

definition sample_progress :: progress_data where
  "sample_progress =
     \<lparr>data_dates = Some [''2024-05-01'', ''2024-05-02''],
      data_ideal = [5 / 7, 10 / 7], data_actual = [1, 1],
      data_habit = Some \<lparr>snapshot_name = ''Meditate'', snapshot_color = Some ''#2f7cff'',
                         snapshot_target = JNum 5\<rparr>\<rparr>"

text \<open>Two variants of \<open>meditate\<close>: one whose payload lacks \<open>streak\<close> only, and one with the
  score \<open>10^21\<close>.\<close>

definition streakless_habit :: habit where
  "streakless_habit = meditate\<lparr>streak := JUndefined\<rparr>"

definition huge_habit :: habit where
  "huge_habit = meditate\<lparr>score := JNum (10 ^ 21)\<rparr>"

text \<open>A stand-in for \<^verbatim>\<open>Number::toString\<close> on the numbers whose digits are not modelled:
  the one such number the examples print is \<open>10^21\<close>, which prints as \<^verbatim>\<open>1e+21\<close>.\<close>

definition sample_digits :: "rat \<Rightarrow> string" where
  "sample_digits x = (if x = 10 ^ 21 then ''1e+21'' else [])"

text \<open>A server that answers every request (its collection holds the one habit
  \<open>meditate\<close>), and a server no request reaches.\<close>

definition server_up :: env where
  "server_up =
     \<lparr>get_habits = (\<lambda>n. Response True (Some [meditate])),
      post_habits = (\<lambda>n. Response True (Some (Some 1))),
      put_habit = (\<lambda>n. Response True (Some ())),
      get_progress = (\<lambda>n. Response True (Some sample_progress)),
      get_idealself = (\<lambda>n. Response True (Some \<lparr>vision = Some ''Be consistent'',
                                                  focus_areas = Some [''health'', ''focus'']\<rparr>)),
      post_idealself = (\<lambda>n. Response True (Some ())),
      get_journal = (\<lambda>n. Response True (Some [])),
      post_journal = (\<lambda>n. Response True (Some ())),
      post_demo_reset = (\<lambda>n. Response True (Some ())),
      chart_defined = True,
      chart_constructs = (\<lambda>n. True),
      number_digits = sample_digits\<rparr>"

definition server_down :: env where
  "server_down =
     \<lparr>get_habits = (\<lambda>n. Rejected),
      post_habits = (\<lambda>n. Rejected),
      put_habit = (\<lambda>n. Rejected),
      get_progress = (\<lambda>n. Rejected),
      get_idealself = (\<lambda>n. Rejected),
      post_idealself = (\<lambda>n. Rejected),
      get_journal = (\<lambda>n. Rejected),
      post_journal = (\<lambda>n. Rejected),
      post_demo_reset = (\<lambda>n. Rejected),
      chart_defined = True,
      chart_constructs = (\<lambda>n. True),
      number_digits = sample_digits\<rparr>"


definition server_refusing :: env where
  "server_refusing = server_up\<lparr>post_demo_reset := (\<lambda>n. Response False None)\<rparr>"


named_theorems frame

section \<open>The visibility controller\<close>

lemma class_add_idem: "class_add c (class_add c cs) = class_add c cs"
  by (simp add: class_add_def)

lemma class_remove_idem: "class_remove c (class_remove c cs) = class_remove c cs"
  by (simp add: class_remove_def)

lemma class_add_mem: "c \<in> set (class_add c cs)"
  by (simp add: class_add_def)

lemma class_remove_mem: "c \<notin> set (class_remove c cs)"
  by (simp add: class_remove_def)

lemma shown_placeholder_idem:
  "shown_placeholder state message (shown_placeholder state message ph) =
   shown_placeholder state message ph"
  by (simp add: shown_placeholder_def class_add_idem class_remove_idem split: option.splits)

lemma updateChartVisibility_absent:
  "el_habitChart s = None \<or> el_chartEmptyState s = None \<Longrightarrow>
   updateChartVisibility state message s = s"
  by (auto simp add: updateChartVisibility_def split: option.splits)

lemma updateChartVisibility_ready:
  assumes "el_habitChart s = Some cv" and "el_chartEmptyState s = Some ph"
  shows "updateChartVisibility ''ready'' message s =
     s\<lparr>el_chartEmptyState := Some (shown_placeholder ''ready'' message ph),
       el_habitChart := Some (cv\<lparr>style_display := ''block'', canvas_aria_hidden := None\<rparr>)\<rparr>"
  using assms
  by (simp add: updateChartVisibility_def shown_placeholder_def Let_def split: option.splits)

lemma updateChartVisibility_other:
  assumes "el_habitChart s = Some cv" and "el_chartEmptyState s = Some ph"
    and "state \<noteq> ''ready''"
  shows "updateChartVisibility state message s =
     (let s1 = s\<lparr>el_chartEmptyState := Some (shown_placeholder state message ph),
                 el_habitChart := Some (cv\<lparr>style_display := ''none'',
                                          canvas_aria_hidden := Some ''true''\<rparr>)\<rparr>
      in if state = ''empty'' \<or> state = ''error''
         then (case habitChart s of
                 None \<Rightarrow> s1
               | Some h \<Rightarrow> (destroy h s1)\<lparr>habitChart := None\<rparr>)
         else s1)"
  using assms
  by (simp add: updateChartVisibility_def shown_placeholder_def Let_def split: option.splits)

text \<open>
  Claim C2. On a page that has the canvas and the placeholder, after
  \<open>updateChartVisibility state message\<close> exactly one of the two is visible, for every
  state (the four states of the controller among them) and every message, given or
  omitted: the canvas is visible for \<open>ready\<close> and the placeholder for any other state.
\<close>

theorem updateChartVisibility_exactly_one_visible:
  assumes "el_habitChart s = Some cv" and "el_chartEmptyState s = Some ph"
  shows "canvas_visible (updateChartVisibility state message s) = (state = ''ready'') \<and>
         placeholder_visible (updateChartVisibility state message s) = (state \<noteq> ''ready'') \<and>
         canvas_visible (updateChartVisibility state message s) \<noteq>
           placeholder_visible (updateChartVisibility state message s)"
proof (cases "state = ''ready''")
  case True
  then show ?thesis
    using assms
    by (simp add: updateChartVisibility_ready canvas_visible_def placeholder_visible_def
          shown_placeholder_def class_add_mem)
next
  case False
  then show ?thesis
    using assms
    by (simp add: updateChartVisibility_other canvas_visible_def placeholder_visible_def
          shown_placeholder_def class_remove_mem destroy_def Let_def split: option.splits)
qed

theorem updateChartVisibility_exactly_one_visible_witness:
  "\<not> canvas_visible (updateChartVisibility ''loading'' (Some ''Loading progress...'') page) \<and>
   placeholder_visible (updateChartVisibility ''loading'' (Some ''Loading progress...'') page) \<and>
   canvas_visible (updateChartVisibility ''ready'' None page) \<and>
   \<not> placeholder_visible (updateChartVisibility ''ready'' None page)"
proof -
  have cv: "el_habitChart page = Some \<lparr>style_display = [], canvas_aria_hidden = None\<rparr>"
    and ph: "el_chartEmptyState page =
      Some \<lparr>textContent = [], dataset_state = None, aria_hidden = None, classList = []\<rparr>"
    by (simp_all add: page_def)
  show ?thesis
    using updateChartVisibility_exactly_one_visible
            [OF cv ph, of "''loading''" "Some ''Loading progress...''"]
          updateChartVisibility_exactly_one_visible [OF cv ph, of "''ready''" None]
    by simp
qed

text \<open>
  Claim C9. The visibility setter is idempotent: a second call with the same state and
  message leaves the whole state as the first call left it (the placeholder and the
  canvas with their classes, style and aria attributes, and the chart handle).
\<close>

theorem updateChartVisibility_idempotent:
  "updateChartVisibility state message (updateChartVisibility state message s) =
   updateChartVisibility state message s"
proof (cases "el_habitChart s")
  case None
  then show ?thesis by (simp add: updateChartVisibility_absent)
next
  case cv: (Some cv)
  show ?thesis
  proof (cases "el_chartEmptyState s")
    case None
    then show ?thesis by (simp add: updateChartVisibility_absent)
  next
    case ph: (Some ph)
    show ?thesis
    proof (cases "state = ''ready''")
      case True
      with cv ph show ?thesis
        by (simp add: updateChartVisibility_ready shown_placeholder_idem)
    next
      case False
      with cv ph show ?thesis
        by (cases "habitChart s")
           (simp_all add: updateChartVisibility_other Let_def destroy_def
              shown_placeholder_idem)
    qed
  qed
qed

theorem updateChartVisibility_idempotent_witness:
  "updateChartVisibility ''error'' (Some ''Could not load habits.'')
     (updateChartVisibility ''error'' (Some ''Could not load habits.'') page) =
   updateChartVisibility ''error'' (Some ''Could not load habits.'') page"
  by (rule updateChartVisibility_idempotent)

text \<open>
  Claim C10. When the message is omitted or empty, \<open>updateChartVisibility\<close> leaves the
  text of the placeholder as it was; on a page with the canvas and the placeholder it
  changes, of the placeholder, the data state, the aria attribute and the class list only,
  and for a state other than \<open>ready\<close> the placeholder is then visible with that earlier
  text.
\<close>

theorem updateChartVisibility_keeps_text:
  assumes "message = None \<or> message = Some []"
  shows "placeholder_text (updateChartVisibility state message s) = placeholder_text s \<and>
         (\<forall>cv ph. el_habitChart s = Some cv \<and> el_chartEmptyState s = Some ph \<longrightarrow>
            el_chartEmptyState (updateChartVisibility state message s) =
              Some (ph\<lparr>dataset_state := Some state,
                       aria_hidden := Some (if state = ''ready'' then ''true'' else ''false''),
                       classList := (if state = ''ready'' then class_add ''hidden'' (classList ph)
                                     else class_remove ''hidden'' (classList ph))\<rparr>) \<and>
            placeholder_visible (updateChartVisibility state message s) = (state \<noteq> ''ready''))"
  using assms
  by (auto simp add: updateChartVisibility_def placeholder_text_def placeholder_visible_def
        Let_def destroy_def class_add_mem class_remove_mem split: option.splits)

theorem updateChartVisibility_keeps_text_witness:
  "placeholder_text
     (updateChartVisibility ''error'' None
        (updateChartVisibility ''loading'' (Some ''Loading progress...'') page)) =
   ''Loading progress...'' \<and>
   placeholder_visible
     (updateChartVisibility ''error'' None
        (updateChartVisibility ''loading'' (Some ''Loading progress...'') page))"
proof -
  let ?s = "updateChartVisibility ''loading'' (Some ''Loading progress...'') page"
  have cv: "el_habitChart ?s = Some \<lparr>style_display = ''none'', canvas_aria_hidden = Some ''true''\<rparr>"
    and ph: "el_chartEmptyState ?s =
      Some \<lparr>textContent = ''Loading progress...'', dataset_state = Some ''loading'',
            aria_hidden = Some ''false'', classList = []\<rparr>"
    by (simp_all add: updateChartVisibility_def page_def Let_def class_remove_def)
  have "placeholder_text ?s = ''Loading progress...''"
    by (simp add: placeholder_text_def ph)
  then show ?thesis
    using updateChartVisibility_keeps_text [of None "''error''" ?s] cv ph
    by simp
qed

section \<open>The selector\<close>

lemma select_loop_keeps:
  "truthy previous \<Longrightarrow> snd (select_loop previous hs (opts, previous)) = previous"
  by (induction hs arbitrary: opts) auto

lemma reconcile_member:
  assumes "el_habitSelect s = Some sel" and "habits \<noteq> []"
  shows "\<exists>h \<in> set habits.
           currentHabitId (updateHabitSelectOptions habits s) = Some (habit_id h)"
proof -
  obtain first rest where Cons: "habits = first # rest"
    using assms(2) by (cases habits) auto
  obtain opts cur
    where loop: "select_loop (currentHabitId s) habits ([], currentHabitId s) = (opts, cur)"
    by (cases "select_loop (currentHabitId s) habits ([], currentHabitId s)")
  show ?thesis
  proof (cases "\<exists>h \<in> set habits. Some (habit_id h) = cur")
    case True
    then obtain h where "h \<in> set habits" "Some (habit_id h) = cur" by blast
    moreover have "currentHabitId (updateHabitSelectOptions habits s) = cur"
      using assms(1) Cons loop True
      by (simp add: updateHabitSelectOptions_def Let_def)
    ultimately show ?thesis by auto
  next
    case False
    have "currentHabitId (updateHabitSelectOptions habits s) = Some (habit_id first)"
      using assms(1) Cons loop False
      by (simp add: updateHabitSelectOptions_def Let_def)
    then show ?thesis using Cons by auto
  qed
qed

lemma reconcile_keeps:
  assumes "currentHabitId s = Some i" and "i \<noteq> 0" and "\<exists>h \<in> set habits. habit_id h = i"
  shows "currentHabitId (updateHabitSelectOptions habits s) = Some i"
proof (cases "el_habitSelect s")
  case None
  with assms show ?thesis by (simp add: updateHabitSelectOptions_def)
next
  case (Some sel)
  obtain opts cur where loop: "select_loop (Some i) habits ([], Some i) = (opts, cur)"
    by (cases "select_loop (Some i) habits ([], Some i)")
  have "cur = Some i"
    using select_loop_keeps [of "Some i" habits "[]"] assms(2) loop by simp
  moreover obtain first rest where "habits = first # rest"
    using assms(3) by (cases habits) auto
  ultimately show ?thesis
    using assms Some loop
    by (auto simp add: updateHabitSelectOptions_def Let_def)
qed

text \<open>
  Claim C1. On a page that has the selector, after \<open>updateHabitSelectOptions habits\<close>: for
  the empty collection the current-habit identifier is null and the selector holds exactly
  one option, the disabled placeholder ``No habits yet'' (and is itself disabled); for a
  non-empty collection the identifier is the id of one of its habits. (Without the
  selector element the function returns at once and reconciles nothing.)
\<close>

theorem updateHabitSelectOptions_reconciles:
  assumes "el_habitSelect s = Some sel"
  shows "(habits = [] \<longrightarrow>
            currentHabitId (updateHabitSelectOptions habits s) = None \<and>
            el_habitSelect (updateHabitSelectOptions habits s) =
              Some (sel\<lparr>select_options :=
                           [\<lparr>option_value = None, option_text = ''No habits yet'',
                             option_selected = True, option_disabled = True\<rparr>],
                         select_disabled := True\<rparr>)) \<and>
         (habits \<noteq> [] \<longrightarrow>
            (\<exists>h \<in> set habits.
               currentHabitId (updateHabitSelectOptions habits s) = Some (habit_id h)))"
proof (cases habits)
  case Nil
  with assms show ?thesis
    by (simp add: updateHabitSelectOptions_def placeholder_option_def)
next
  case (Cons first rest)
  then show ?thesis
    using reconcile_member [OF assms, of habits] by simp
qed

theorem updateHabitSelectOptions_reconciles_witness:
  "currentHabitId (updateHabitSelectOptions [] (page\<lparr>currentHabitId := Some 1\<rparr>)) = None \<and>
   el_habitSelect (updateHabitSelectOptions [] (page\<lparr>currentHabitId := Some 1\<rparr>)) =
     Some \<lparr>select_options =
             [\<lparr>option_value = None, option_text = ''No habits yet'',
               option_selected = True, option_disabled = True\<rparr>],
           select_disabled = True\<rparr> \<and>
   currentHabitId (updateHabitSelectOptions [meditate] page) = Some 1"
proof -
  have sel: "el_habitSelect (page\<lparr>currentHabitId := Some 1\<rparr>) =
               Some \<lparr>select_options = [], select_disabled = False\<rparr>"
    and sel': "el_habitSelect page = Some \<lparr>select_options = [], select_disabled = False\<rparr>"
    by (simp_all add: page_def)
  show ?thesis
    using updateHabitSelectOptions_reconciles [OF sel, of "[]"]
          updateHabitSelectOptions_reconciles [OF sel', of "[meditate]"]
    by (simp add: meditate_def)
qed

text \<open>
  Claim C5, as the script has it. For every collection and every truthy (non-zero)
  current-habit identifier that is the id of one of its habits,
  \<open>updateHabitSelectOptions\<close> leaves the identifier unchanged. The script tests the
  identifier by truthiness, so the identifier \<open>0\<close> counts as no selection: the
  counterexample below starts from the identifier \<open>0\<close>, present in the collection, and ends
  on \<open>5\<close>.
\<close>

theorem updateHabitSelectOptions_keeps_selection:
  assumes "currentHabitId s = Some i" and "i \<noteq> 0" and "\<exists>h \<in> set habits. habit_id h = i"
  shows "currentHabitId (updateHabitSelectOptions habits s) = Some i"
  using assms by (rule reconcile_keeps)

theorem updateHabitSelectOptions_keeps_selection_witness:
  "currentHabitId
     (updateHabitSelectOptions [meditate, habit_five] (page\<lparr>currentHabitId := Some 5\<rparr>)) =
   Some 5"
proof -
  have "currentHabitId (page\<lparr>currentHabitId := Some 5\<rparr>) = Some 5"
    and "(5::int) \<noteq> 0"
    and "\<exists>h \<in> set [meditate, habit_five]. habit_id h = 5"
    by (simp_all add: habit_five_def)
  then show ?thesis
    by (rule updateHabitSelectOptions_keeps_selection)
qed

theorem updateHabitSelectOptions_keeps_selection_counterexample:
  "habit_id habit_zero = 0 \<and>
   currentHabitId (page\<lparr>currentHabitId := Some 0\<rparr>) = Some 0 \<and>
   currentHabitId
     (updateHabitSelectOptions [habit_zero, habit_five] (page\<lparr>currentHabitId := Some 0\<rparr>)) =
   Some 5"
  by (simp add: updateHabitSelectOptions_def page_def habit_zero_def habit_five_def
        meditate_def Let_def)

section \<open>The derived display of a habit\<close>

lemma digit_char_simps:
  "digit_char 0 = CHR ''0''" "digit_char 1 = CHR ''1''" "digit_char 2 = CHR ''2''"
  "digit_char 3 = CHR ''3''" "digit_char 4 = CHR ''4''" "digit_char 5 = CHR ''5''"
  "digit_char 6 = CHR ''6''" "digit_char 7 = CHR ''7''" "digit_char 8 = CHR ''8''"
  "digit_char 9 = CHR ''9''" "digit_char (Suc 0) = CHR ''1''"
  by (simp_all add: digit_char_def)

lemma Math_round_of_int: "Math_round (of_int n) = n"
  unfolding Math_round_def by linarith

lemma Math_round_mono: "x \<le> y \<Longrightarrow> Math_round x \<le> Math_round y"
  unfolding Math_round_def by (simp add: floor_mono)

lemma Math_round_clamp:
  "min 100 (max 0 (Math_round x)) = Math_round (min 100 (max 0 x))"
proof -
  have r0: "Math_round (0::rat) = 0" and r100: "Math_round (100::rat) = 100"
    using Math_round_of_int [of 0] Math_round_of_int [of 100] by simp_all
  consider "x \<le> 0" | "0 < x" "x \<le> 100" | "100 < x" by linarith
  then show ?thesis
  proof cases
    case 1
    then have "Math_round x \<le> 0" using Math_round_mono [of x 0] r0 by simp
    with 1 r0 show ?thesis by (simp add: max_def min_def)
  next
    case 2
    then have "0 \<le> Math_round x" "Math_round x \<le> 100"
      using Math_round_mono [of 0 x] Math_round_mono [of x 100] r0 r100 by simp_all
    with 2 show ?thesis by (simp add: max_def min_def)
  next
    case 3
    then have "100 \<le> Math_round x" using Math_round_mono [of 100 x] r100 by simp
    with 3 r100 show ?thesis by (simp add: max_def min_def)
  qed
qed

lemma number_to_string_small:
  "number_to_string digits 0 = ''0''" "number_to_string digits 7 = ''7''"
  by (simp_all add: number_to_string_def int_to_string_def digit_char_simps)

lemma toFixed1_nearest_tenth:
  assumes "\<bar>x\<bar> < 10 ^ 21"
  shows "\<exists>n. toFixed1 digits x =
              (if x < 0 then ''-'' else []) @ nat_to_string (n div 10) @ ''.'' @
              [digit_char (n mod 10)] \<and>
             \<bar>of_nat n / 10 - \<bar>x\<bar>\<bar> \<le> 1 / 20"
proof -
  define a where "a = \<bar>x\<bar>"
  define k where "k = \<lfloor>a * 10 + 1 / 2\<rfloor>"
  have lo: "of_int k \<le> a * 10 + 1 / 2" and hi: "a * 10 + 1 / 2 < of_int k + 1"
    unfolding k_def by linarith+
  have "0 \<le> a" by (simp add: a_def)
  then have "0 \<le> k" by (simp add: k_def le_floor_iff)
  then have n: "(of_nat (nat k) :: rat) = of_int k" by simp
  have "\<bar>of_nat (nat k) / 10 - a\<bar> \<le> 1 / 20"
    unfolding n using lo hi by (intro abs_leI) linarith+
  moreover have "toFixed1 digits x =
      (if x < 0 then ''-'' else []) @ nat_to_string (nat k div 10) @ ''.'' @
      [digit_char (nat k mod 10)]"
    using assms by (simp add: toFixed1_def Let_def a_def k_def)
  ultimately show ?thesis unfolding a_def by blast
qed

text \<open>
  Claim C6, as the script has it. For every habit payload the width of the actual-progress
  bar is the score clamped to \<open>[0, 100]\<close> and rounded to the nearest integer (the larger one
  of two), in percent: it lies between 0 and 100, is the clamped score itself when the
  score is an integer, and is 0 when the score is missing or not a number. A score of 150
  gives \<open>100%\<close> and a score of -5 gives \<open>0%\<close>. The claim without the rounding fails: the
  counterexample below has the score 85.5 and the width \<open>86%\<close>.
\<close>

theorem actual_bar_width_rounded_clamped:
  "actualWidth h = Math_round (min 100 (max 0 (safeScore h))) \<and>
   li_actual_width (habit_item digits h) = int_to_string (actualWidth h) @ ''%'' \<and>
   0 \<le> actualWidth h \<and> actualWidth h \<le> 100 \<and>
   (\<forall>n. score h = JNum (of_int n) \<longrightarrow> actualWidth h = min 100 (max 0 n)) \<and>
   (\<not> isFinite (score h) \<longrightarrow> li_actual_width (habit_item digits h) = ''0%'') \<and>
   (score h = JNum 150 \<longrightarrow> li_actual_width (habit_item digits h) = ''100%'') \<and>
   (score h = JNum (- 5) \<longrightarrow> li_actual_width (habit_item digits h) = ''0%'')"
proof -
  have clamp: "actualWidth h = Math_round (min 100 (max 0 (safeScore h)))"
    by (simp add: actualWidth_def Math_round_clamp)
  have int: "actualWidth h = min 100 (max 0 n)" if "score h = JNum (of_int n)" for n
    using that by (simp add: actualWidth_def safeScore_def Math_round_of_int)
  have w0: "actualWidth h = 0" if "\<not> isFinite (score h)"
    using that Math_round_of_int [of 0]
    by (cases "score h") (simp_all add: actualWidth_def safeScore_def)
  have w150: "actualWidth h = 100" if "score h = JNum 150"
    using int [of 150] that by simp
  have w5: "actualWidth h = 0" if "score h = JNum (- 5)"
    using int [of "- 5"] that by simp
  have width: "li_actual_width (habit_item digits h) = int_to_string (actualWidth h) @ ''%''"
    by (simp add: habit_item_def)
  have bounds: "0 \<le> actualWidth h" "actualWidth h \<le> 100"
    by (simp_all add: actualWidth_def)
  have s0: "int_to_string 0 = ''0''" and s100: "int_to_string 100 = ''100''"
    by (simp_all add: int_to_string_def digit_char_simps)
  have "li_actual_width (habit_item digits h) = ''0%''" if "\<not> isFinite (score h)"
    using w0 [OF that] by (simp add: width s0)
  moreover have "li_actual_width (habit_item digits h) = ''100%''" if "score h = JNum 150"
    using w150 [OF that] by (simp add: width s100)
  moreover have "li_actual_width (habit_item digits h) = ''0%''" if "score h = JNum (- 5)"
    using w5 [OF that] by (simp add: width s0)
  ultimately show ?thesis
    using clamp int width bounds by (intro conjI impI allI) (assumption | simp)+
qed

theorem actual_bar_width_rounded_clamped_witness:
  "li_actual_width (habit_item sample_digits (meditate\<lparr>score := JNum 150\<rparr>)) = ''100%'' \<and>
   li_actual_width (habit_item sample_digits (meditate\<lparr>score := JNum (- 5)\<rparr>)) = ''0%'' \<and>
   li_actual_width (habit_item sample_digits bare_habit) = ''0%''"
proof -
  have "score (meditate\<lparr>score := JNum 150\<rparr>) = JNum 150 \<longrightarrow>
        li_actual_width (habit_item sample_digits (meditate\<lparr>score := JNum 150\<rparr>)) = ''100%''"
    using actual_bar_width_rounded_clamped [of "meditate\<lparr>score := JNum 150\<rparr>" sample_digits]
    by (elim conjE)
  moreover have "score (meditate\<lparr>score := JNum (- 5)\<rparr>) = JNum (- 5) \<longrightarrow>
        li_actual_width (habit_item sample_digits (meditate\<lparr>score := JNum (- 5)\<rparr>)) = ''0%''"
    using actual_bar_width_rounded_clamped [of "meditate\<lparr>score := JNum (- 5)\<rparr>" sample_digits]
    by (elim conjE)
  moreover have "\<not> isFinite (score bare_habit) \<longrightarrow>
        li_actual_width (habit_item sample_digits bare_habit) = ''0%''"
    using actual_bar_width_rounded_clamped [of bare_habit sample_digits] by (elim conjE)
  moreover have "\<not> isFinite (score bare_habit)"
    by (simp add: bare_habit_def)
  ultimately show ?thesis by simp
qed

theorem actual_bar_width_counterexample:
  "score meditate = JNum (171 / 2) \<and>
   li_actual_width (habit_item sample_digits meditate) = ''86%'' \<and>
   rat_of_int (actualWidth meditate) \<noteq> min 100 (max 0 (171 / 2))"
proof -
  have "Math_round (171 / 2) = 86" by code_simp
  then show ?thesis
    by (simp add: meditate_def habit_item_def actualWidth_def safeScore_def int_to_string_def
          digit_char_simps)
qed

text \<open>
  Claim C7, as the script has it. For every habit payload: the target renders as 7 when
  \<open>target_per_week\<close> is absent, not a finite number, or not positive; the streak and the
  best streak each render as 0 when that field is absent, not a finite number, or negative;
  the score counts as 0 when it is not a finite number; the line of the item is built from
  these values, the score through \<open>toFixed(1)\<close> and followed by a percent sign. For a score
  below \<open>10^21\<close> in magnitude that is its nearest tenth with one digit after the point;
  from \<open>10^21\<close> on it is the sign and \<^verbatim>\<open>Number::toString\<close> of the magnitude, which is the
  exponent notation. A payload without \<open>target_per_week\<close> shows ``Target: 7/week''; one
  without \<open>streak\<close> shows ``Streak: 0 (best b)'' with the best streak as it renders, which is
  ``Streak: 0 (best 0)'' when \<open>best_streak\<close> is missing as well. The counterexample below is
  a payload that lacks \<open>streak\<close> only and shows ``Streak: 0 (best 4)'', and the score
  \<open>10^21\<close>, shown as ``1e+21%''.
\<close>

theorem habit_display_defaults:
  "(target_per_week h = JUndefined \<or> \<not> isFinite (target_per_week h) \<or>
      (\<exists>x. target_per_week h = JNum x \<and> x \<le> 0) \<longrightarrow> safeTarget h = 7) \<and>
   (streak h = JUndefined \<or> \<not> isFinite (streak h) \<or>
      (\<exists>x. streak h = JNum x \<and> x < 0) \<longrightarrow> safeStreak h = 0) \<and>
   (best_streak h = JUndefined \<or> \<not> isFinite (best_streak h) \<or>
      (\<exists>x. best_streak h = JNum x \<and> x < 0) \<longrightarrow> safeBest h = 0) \<and>
   (\<not> isFinite (score h) \<longrightarrow> safeScore h = 0) \<and>
   li_meta (habit_item digits h) =
     ''Target: '' @ number_to_string digits (safeTarget h) @ ''/week '' @ bullet @
     '' Streak: '' @ number_to_string digits (safeStreak h) @
     '' (best '' @ number_to_string digits (safeBest h) @ '') '' @ bullet @
     '' Lifetime score: '' @ toFixed1 digits (safeScore h) @ ''%'' \<and>
   (\<bar>safeScore h\<bar> < 10 ^ 21 \<longrightarrow>
      (\<exists>n. toFixed1 digits (safeScore h) =
             (if safeScore h < 0 then ''-'' else []) @ nat_to_string (n div 10) @ ''.'' @
             [digit_char (n mod 10)] \<and>
            \<bar>of_nat n / 10 - \<bar>safeScore h\<bar>\<bar> \<le> 1 / 20)) \<and>
   (10 ^ 21 \<le> \<bar>safeScore h\<bar> \<longrightarrow>
      toFixed1 digits (safeScore h) =
        (if safeScore h < 0 then ''-'' else []) @ digits \<bar>safeScore h\<bar>) \<and>
   (target_per_week h = JUndefined \<longrightarrow>
      (\<exists>rest. li_meta (habit_item digits h) = ''Target: 7/week'' @ rest)) \<and>
   (streak h = JUndefined \<longrightarrow>
      (\<exists>before after. li_meta (habit_item digits h) =
         before @ ''Streak: 0 (best '' @ number_to_string digits (safeBest h) @ '')'' @
         after)) \<and>
   (streak h = JUndefined \<and> best_streak h = JUndefined \<longrightarrow>
      (\<exists>before after. li_meta (habit_item digits h) =
         before @ ''Streak: 0 (best 0)'' @ after))"
proof -
  have target: "safeTarget h = 7"
    if "target_per_week h = JUndefined \<or> \<not> isFinite (target_per_week h) \<or>
        (\<exists>x. target_per_week h = JNum x \<and> x \<le> 0)"
    using that by (cases "target_per_week h") (auto simp add: safeTarget_def)
  have streak: "safeStreak h = 0"
    if "streak h = JUndefined \<or> \<not> isFinite (streak h) \<or> (\<exists>x. streak h = JNum x \<and> x < 0)"
    using that by (cases "streak h") (auto simp add: safeStreak_def)
  have best: "safeBest h = 0"
    if "best_streak h = JUndefined \<or> \<not> isFinite (best_streak h) \<or>
        (\<exists>x. best_streak h = JNum x \<and> x < 0)"
    using that by (cases "best_streak h") (auto simp add: safeBest_def)
  have score: "safeScore h = 0" if "\<not> isFinite (score h)"
    using that by (cases "score h") (simp_all add: safeScore_def)
  have meta: "li_meta (habit_item digits h) = meta_text digits h"
    by (simp add: habit_item_def)
  have big: "toFixed1 digits (safeScore h) =
        (if safeScore h < 0 then ''-'' else []) @ digits \<bar>safeScore h\<bar>"
    if "10 ^ 21 \<le> \<bar>safeScore h\<bar>"
    using that by (simp add: toFixed1_def Let_def)
  have ex1: "\<exists>rest. li_meta (habit_item digits h) = ''Target: 7/week'' @ rest"
    if "target_per_week h = JUndefined"
    using target that by (simp add: meta meta_text_def number_to_string_small)
  have ex2: "\<exists>before after. li_meta (habit_item digits h) =
                before @ ''Streak: 0 (best 0)'' @ after"
    if "streak h = JUndefined \<and> best_streak h = JUndefined"
  proof -
    have "li_meta (habit_item digits h) =
        (''Target: '' @ number_to_string digits (safeTarget h) @ ''/week '' @ bullet @ '' '') @
        ''Streak: 0 (best 0)'' @
        ('' '' @ bullet @ '' Lifetime score: '' @ toFixed1 digits (safeScore h) @ ''%'')"
      using streak best that by (simp add: meta meta_text_def number_to_string_small)
    then show ?thesis by blast
  qed
  have ex3: "\<exists>before after. li_meta (habit_item digits h) =
                before @ ''Streak: 0 (best '' @ number_to_string digits (safeBest h) @ '')'' @
                after"
    if "streak h = JUndefined"
  proof -
    have "li_meta (habit_item digits h) =
        (''Target: '' @ number_to_string digits (safeTarget h) @ ''/week '' @ bullet @ '' '') @
        ''Streak: 0 (best '' @ number_to_string digits (safeBest h) @ '')'' @
        ('' '' @ bullet @ '' Lifetime score: '' @ toFixed1 digits (safeScore h) @ ''%'')"
      using streak that by (simp add: meta meta_text_def number_to_string_small)
    then show ?thesis by blast
  qed
  have shown: "li_meta (habit_item digits h) =
     ''Target: '' @ number_to_string digits (safeTarget h) @ ''/week '' @ bullet @
     '' Streak: '' @ number_to_string digits (safeStreak h) @
     '' (best '' @ number_to_string digits (safeBest h) @ '') '' @ bullet @
     '' Lifetime score: '' @ toFixed1 digits (safeScore h) @ ''%''"
    by (simp add: meta meta_text_def)
  show ?thesis
  proof (intro conjI impI)
    show "li_meta (habit_item digits h) =
       ''Target: '' @ number_to_string digits (safeTarget h) @ ''/week '' @ bullet @
       '' Streak: '' @ number_to_string digits (safeStreak h) @
       '' (best '' @ number_to_string digits (safeBest h) @ '') '' @ bullet @
       '' Lifetime score: '' @ toFixed1 digits (safeScore h) @ ''%''"
      by (rule shown)
  qed (fact target streak best score big ex1 ex2 ex3 toFixed1_nearest_tenth)+
qed

theorem habit_display_defaults_witness:
  "li_meta (habit_item sample_digits bare_habit) =
     ''Target: 7/week '' @ bullet @ '' Streak: 0 (best 0) '' @ bullet @
     '' Lifetime score: 0.0%'' \<and>
   li_meta (habit_item sample_digits odd_habit) =
     ''Target: 7/week '' @ bullet @ '' Streak: 0 (best 0) '' @ bullet @
     '' Lifetime score: 85.3%'' \<and>
   toFixed1 sample_digits (safeScore huge_habit) = ''1e+21''"
proof -
  have "toFixed1 sample_digits 0 = ''0.0''"
    by (simp add: toFixed1_def Let_def digit_char_simps)
  moreover have "target_per_week bare_habit = JUndefined" "streak bare_habit = JUndefined"
    "best_streak bare_habit = JUndefined" "\<not> isFinite (score bare_habit)"
    by (simp_all add: bare_habit_def)
  ultimately have bare: "li_meta (habit_item sample_digits bare_habit) =
     ''Target: 7/week '' @ bullet @ '' Streak: 0 (best 0) '' @ bullet @
     '' Lifetime score: 0.0%''"
    using habit_display_defaults [of bare_habit sample_digits]
    by (simp add: number_to_string_small)
  have s85: "toFixed1 sample_digits (safeScore odd_habit) = ''85.3''"
    by code_simp
  have "\<exists>x. target_per_week odd_habit = JNum x \<and> x \<le> 0"
    "\<exists>x. streak odd_habit = JNum x \<and> x < 0" "\<not> isFinite (best_streak odd_habit)"
    by (simp_all add: odd_habit_def)
  then have odd: "li_meta (habit_item sample_digits odd_habit) =
     ''Target: 7/week '' @ bullet @ '' Streak: 0 (best 0) '' @ bullet @
     '' Lifetime score: 85.3%''"
    using habit_display_defaults [of odd_habit sample_digits]
    by (simp add: number_to_string_small s85)
  have score: "safeScore huge_habit = 10 ^ 21"
    by (simp add: huge_habit_def meditate_def safeScore_def)
  have "(10 :: rat) ^ 21 \<le> \<bar>safeScore huge_habit\<bar>" "\<not> safeScore huge_habit < 0"
    unfolding score by simp_all
  moreover have "sample_digits \<bar>safeScore huge_habit\<bar> = ''1e+21''"
    unfolding score by (simp add: sample_digits_def)
  moreover have "10 ^ 21 \<le> \<bar>safeScore huge_habit\<bar> \<longrightarrow>
      toFixed1 sample_digits (safeScore huge_habit) =
        (if safeScore huge_habit < 0 then ''-'' else []) @
        sample_digits \<bar>safeScore huge_habit\<bar>"
    using habit_display_defaults [of huge_habit sample_digits] by (elim conjE)
  ultimately have "toFixed1 sample_digits (safeScore huge_habit) = ''1e+21''"
    by simp
  with bare odd show ?thesis by simp
qed

theorem habit_display_counterexample:
  "streak streakless_habit = JUndefined \<and>
   best_streak streakless_habit = JNum 4 \<and>
   li_meta (habit_item sample_digits streakless_habit) =
     ''Target: 5/week '' @ bullet @ '' Streak: 0 (best 4) '' @ bullet @
     '' Lifetime score: 85.5%'' \<and>
   score huge_habit = JNum (10 ^ 21) \<and>
   li_meta (habit_item sample_digits huge_habit) =
     ''Target: 5/week '' @ bullet @ '' Streak: 3 (best 4) '' @ bullet @
     '' Lifetime score: 1e+21%''"
proof -
  have "streak streakless_habit = JUndefined" "best_streak streakless_habit = JNum 4"
    "score huge_habit = JNum (10 ^ 21)"
    by (simp_all add: streakless_habit_def huge_habit_def meditate_def)
  moreover have "li_meta (habit_item sample_digits streakless_habit) =
     ''Target: 5/week '' @ bullet @ '' Streak: 0 (best 4) '' @ bullet @
     '' Lifetime score: 85.5%''"
    by code_simp
  moreover have "li_meta (habit_item sample_digits huge_habit) =
     ''Target: 5/week '' @ bullet @ '' Streak: 3 (best 4) '' @ bullet @
     '' Lifetime score: 1e+21%''"
    by code_simp
  ultimately show ?thesis by simp
qed

section \<open>The progress chart orchestrator: failures\<close>

lemma send_frame [frame]:
  "requests (send r s) = requests s @ [r]"
  "habitChart (send r s) = habitChart s" "currentHabitId (send r s) = currentHabitId s"
  "currentRange (send r s) = currentRange s" "charts (send r s) = charts s"
  "el_habitChart (send r s) = el_habitChart s"
  "el_chartEmptyState (send r s) = el_chartEmptyState s"
  "el_toastContainer (send r s) = el_toastContainer s"
  "el_habitSelect (send r s) = el_habitSelect s"
  "console (send r s) = console s" "progress_calls (send r s) = progress_calls s"
  by (simp_all add: send_def)

lemma console_error_frame [frame]:
  "console (console_error e s) = console s @ [e]"
  "requests (console_error e s) = requests s"
  "habitChart (console_error e s) = habitChart s"
  "currentHabitId (console_error e s) = currentHabitId s"
  "currentRange (console_error e s) = currentRange s" "charts (console_error e s) = charts s"
  "el_habitChart (console_error e s) = el_habitChart s"
  "el_chartEmptyState (console_error e s) = el_chartEmptyState s"
  "el_toastContainer (console_error e s) = el_toastContainer s"
  "el_habitSelect (console_error e s) = el_habitSelect s"
  "progress_calls (console_error e s) = progress_calls s"
  by (simp_all add: console_error_def)

lemma showToast_frame [frame]:
  "console (showToast m t s) = console s"
  "requests (showToast m t s) = requests s"
  "habitChart (showToast m t s) = habitChart s"
  "currentHabitId (showToast m t s) = currentHabitId s"
  "currentRange (showToast m t s) = currentRange s" "charts (showToast m t s) = charts s"
  "el_habitChart (showToast m t s) = el_habitChart s"
  "el_chartEmptyState (showToast m t s) = el_chartEmptyState s"
  "el_habitSelect (showToast m t s) = el_habitSelect s"
  "progress_calls (showToast m t s) = progress_calls s"
  by (simp_all add: showToast_def split: option.splits)

lemma showToast_toasts [frame]:
  "el_toastContainer s = Some ts \<Longrightarrow>
   el_toastContainer (showToast m ''error'' s) = Some (ts @ [error_toast m])"
  by (simp add: showToast_def error_toast_def class_add_def)

lemma destroy_frame [frame]:
  "console (destroy h s) = console s"
  "requests (destroy h s) = requests s"
  "habitChart (destroy h s) = habitChart s"
  "currentHabitId (destroy h s) = currentHabitId s"
  "currentRange (destroy h s) = currentRange s"
  "el_habitChart (destroy h s) = el_habitChart s"
  "el_chartEmptyState (destroy h s) = el_chartEmptyState s"
  "el_toastContainer (destroy h s) = el_toastContainer s"
  "el_habitSelect (destroy h s) = el_habitSelect s"
  "progress_calls (destroy h s) = progress_calls s"
  "length (charts (destroy h s)) = length (charts s)"
  by (simp_all add: destroy_def)

lemma updateChartVisibility_frame [frame]:
  "console (updateChartVisibility st m s) = console s"
  "requests (updateChartVisibility st m s) = requests s"
  "currentHabitId (updateChartVisibility st m s) = currentHabitId s"
  "currentRange (updateChartVisibility st m s) = currentRange s"
  "el_toastContainer (updateChartVisibility st m s) = el_toastContainer s"
  "el_habitSelect (updateChartVisibility st m s) = el_habitSelect s"
  "progress_calls (updateChartVisibility st m s) = progress_calls s"
  by (simp_all add: updateChartVisibility_def Let_def destroy_def split: option.splits)

lemma live_charts_destroy_idem:
  "live_charts (destroy h (destroy h s)) = live_charts (destroy h s)"
  by (simp add: live_charts_def destroy_def)


lemma live_charts_cong: "charts t = charts s \<Longrightarrow> live_charts t = live_charts s"
  by (simp add: live_charts_def)

lemma charts_destroy_cong: "charts t = charts s \<Longrightarrow> charts (destroy h t) = charts (destroy h s)"
  by (simp add: destroy_def)

lemma loading_state:
  assumes "el_habitChart s = Some cv" and "el_chartEmptyState s = Some ph"
  shows "el_habitChart (updateChartVisibility ''loading'' m s) =
           Some (cv\<lparr>style_display := ''none'', canvas_aria_hidden := Some ''true''\<rparr>)"
    and "el_chartEmptyState (updateChartVisibility ''loading'' m s) =
           Some (shown_placeholder ''loading'' m ph)"
    and "habitChart (updateChartVisibility ''loading'' m s) = habitChart s"
    and "charts (updateChartVisibility ''loading'' m s) = charts s"
  using assms by (simp_all add: updateChartVisibility_other Let_def)

lemma error_epilogue:
  assumes cv: "el_habitChart t = Some cv" and ph: "el_chartEmptyState t = Some ph"
    and ts: "el_toastContainer t = Some ts"
    and inv: "case habitChart t of None \<Rightarrow> live_charts t = []
              | Some h \<Rightarrow> live_charts (destroy h t) = []"
    and m1: "m1 \<noteq> []"
  shows "shows_error m1 m2 ts
           (showToast m2 ''error'' (updateChartVisibility ''error'' (Some m1) t))"
proof -
  let ?u = "updateChartVisibility ''error'' (Some m1) t"
  have ne: "''error'' \<noteq> ''ready''" by simp
  have u_ph: "el_chartEmptyState ?u = Some (shown_placeholder ''error'' (Some m1) ph)"
    and u_cv: "el_habitChart ?u =
                 Some (cv\<lparr>style_display := ''none'', canvas_aria_hidden := Some ''true''\<rparr>)"
    and u_hc: "habitChart ?u = None"
    using inv
    by (simp_all add: updateChartVisibility_other [OF cv ph ne] Let_def frame
          split: option.splits)
  have u_ts: "el_toastContainer ?u = Some ts"
    by (simp add: frame ts)
  have u_live: "live_charts ?u = []"
  proof (cases "habitChart t")
    case None
    then have "charts ?u = charts t"
      by (simp add: updateChartVisibility_other [OF cv ph ne] Let_def)
    then have "live_charts ?u = live_charts t" by (rule live_charts_cong)
    with inv None show ?thesis by simp
  next
    case (Some h)
    then have "charts ?u = charts (destroy h t)"
      by (simp add: updateChartVisibility_other [OF cv ph ne] Let_def destroy_def)
    then have "live_charts ?u = live_charts (destroy h t)" by (rule live_charts_cong)
    with inv Some show ?thesis by simp
  qed
  have "live_charts (showToast m2 ''error'' ?u) = live_charts ?u"
    by (rule live_charts_cong) (simp add: frame)
  with u_ph u_cv u_hc u_ts u_live m1 show ?thesis
    by (simp add: shows_error_def visibility_state_def placeholder_text_def
          placeholder_visible_def canvas_visible_def toasts_def frame shown_placeholder_def
          class_remove_mem error_toast_def)
qed

lemma caught_epilogue:
  assumes cv: "el_habitChart t = Some cv" and ph: "el_chartEmptyState t = Some ph"
    and ts: "el_toastContainer t = Some ts"
    and inv: "case habitChart t of None \<Rightarrow> live_charts t = []
              | Some h \<Rightarrow> live_charts (destroy h t) = []"
    and m1: "m1 \<noteq> []"
  shows "shows_error m1 m2 ts
           (showToast m2 ''error''
              (updateChartVisibility ''error'' (Some m1) (console_error err t)))"
proof (rule error_epilogue [OF _ _ _ _ m1])
  show "el_habitChart (console_error err t) = Some cv" by (simp add: frame cv)
  show "el_chartEmptyState (console_error err t) = Some ph" by (simp add: frame ph)
  show "el_toastContainer (console_error err t) = Some ts" by (simp add: frame ts)
  have c: "charts (console_error err t) = charts t" by (simp add: frame)
  have "live_charts (console_error err t) = live_charts t"
    using c by (rule live_charts_cong)
  moreover have "live_charts (destroy h (console_error err t)) = live_charts (destroy h t)" for h
    using c by (intro live_charts_cong charts_destroy_cong)
  ultimately show "case habitChart (console_error err t) of
          None \<Rightarrow> live_charts (console_error err t) = []
        | Some h \<Rightarrow> live_charts (destroy h (console_error err t)) = []"
    using inv by (simp add: frame split: option.splits)
qed

lemma loadHabitProgress_outcome:
  assumes cur: "currentHabitId s = Some i" and nz: "i \<noteq> 0"
    and cv: "el_habitChart s = Some cv" and ph: "el_chartEmptyState s = Some ph"
    and ts: "el_toastContainer s = Some ts" and inv: "chart_inv s"
  shows "case progress_failure env s of
           None \<Rightarrow> visibility_state (loadHabitProgress env s) = Some ''ready''
         | Some f \<Rightarrow>
             shows_error
               (if f = ChartMissing then ''Chart unavailable.''
                else ''Could not load progress right now.'')
               (if f = ChartMissing then ''Progress chart unavailable right now''
                else ''Could not load progress'')
               ts (loadHabitProgress env s)"
proof -
  let ?s0 = "updateChartVisibility ''loading'' (Some ''Loading progress...'') s"
  let ?s1 = "send (GET_progress i (currentRange ?s0)) ?s0"
  let ?s2 = "case habitChart ?s1 of None \<Rightarrow> ?s1 | Some h \<Rightarrow> destroy h ?s1"
  let ?cv = "cv\<lparr>style_display := ''none'', canvas_aria_hidden := Some ''true''\<rparr>"
  let ?ph = "shown_placeholder ''loading'' (Some ''Loading progress...'') ph"
  note loading = loading_state [OF cv ph, of "Some ''Loading progress...''"]
  have n: "length (requests ?s0) = length (requests s)" by (simp add: frame)
  have cv1: "el_habitChart ?s1 = Some ?cv" and ph1: "el_chartEmptyState ?s1 = Some ?ph"
    and ts1: "el_toastContainer ?s1 = Some ts" and hc1: "habitChart ?s1 = habitChart s"
    and ch1: "charts ?s1 = charts s"
    by (simp_all add: frame loading ts)
  have live1: "live_charts ?s1 = live_charts s"
    using ch1 by (rule live_charts_cong)
  have live1d: "live_charts (destroy h ?s1) = live_charts (destroy h s)" for h
    using ch1 by (intro live_charts_cong charts_destroy_cong)
  have inv1: "case habitChart ?s1 of None \<Rightarrow> live_charts ?s1 = []
              | Some h \<Rightarrow> live_charts (destroy h ?s1) = []"
    using inv by (simp add: chart_inv_def hc1 live1 live1d split: option.splits)
  have cv2: "el_habitChart ?s2 = Some ?cv" and ph2: "el_chartEmptyState ?s2 = Some ?ph"
    and ts2: "el_toastContainer ?s2 = Some ts" and hc2: "habitChart ?s2 = habitChart s"
    using cv1 ph1 ts1 hc1 by (simp_all add: frame split: option.splits)
  have inv2: "case habitChart ?s2 of None \<Rightarrow> live_charts ?s2 = []
              | Some h \<Rightarrow> live_charts (destroy h ?s2) = []"
    using inv1 by (cases "habitChart ?s1") (simp_all add: frame live_charts_destroy_idem)
  have run: "loadHabitProgress env s =
      (case loadHabitProgress_try env i ?s0 of
         Inr s' \<Rightarrow> s'
       | Inl (err, s') \<Rightarrow>
           showToast ''Could not load progress'' ''error''
             (updateChartVisibility ''error'' (Some ''Could not load progress right now.'')
                (console_error err s')))"
    using cur nz by (simp add: loadHabitProgress_def)
  note caught1 = caught_epilogue [OF cv1 ph1 ts1 inv1,
      of "''Could not load progress right now.''" "''Could not load progress''"]
  note caught2 = caught_epilogue [OF cv2 ph2 ts2 inv2,
      of "''Could not load progress right now.''" "''Could not load progress''"]
  show ?thesis
  proof (cases "get_progress env (length (requests s))")
    case Rejected
    then have "loadHabitProgress env s =
        showToast ''Could not load progress'' ''error''
          (updateChartVisibility ''error'' (Some ''Could not load progress right now.'')
             (console_error NetworkFailure ?s1))"
      by (simp add: run loadHabitProgress_try_def n Let_def)
    moreover have "progress_failure env s = Some TransportError"
      using Rejected by (simp add: progress_failure_def)
    ultimately show ?thesis using caught1 [of NetworkFailure] by simp
  next
    case (Response ok body)
    show ?thesis
    proof (cases ok)
      case False
      then have "loadHabitProgress env s =
          showToast ''Could not load progress'' ''error''
            (updateChartVisibility ''error'' (Some ''Could not load progress right now.'')
               (console_error (Error ''Failed to fetch progress'') ?s1))"
        using Response by (simp add: run loadHabitProgress_try_def n Let_def)
      moreover have "progress_failure env s = Some HttpStatus"
        using Response False by (simp add: progress_failure_def)
      ultimately show ?thesis using caught1 [of "Error ''Failed to fetch progress''"] by simp
    next
      case True
      show ?thesis
      proof (cases body)
        case None
        then have "loadHabitProgress env s =
            showToast ''Could not load progress'' ''error''
              (updateChartVisibility ''error'' (Some ''Could not load progress right now.'')
                 (console_error SyntaxError ?s1))"
          using Response True by (simp add: run loadHabitProgress_try_def n Let_def)
        moreover have "progress_failure env s = Some BodyNotJson"
          using Response True None by (simp add: progress_failure_def)
        ultimately show ?thesis using caught1 [of SyntaxError] by simp
      next
        case (Some data)
        note resp = Response True Some
        show ?thesis
        proof (cases "chart_defined env")
          case False
          then have "loadHabitProgress env s =
              showToast ''Progress chart unavailable right now'' ''error''
                (updateChartVisibility ''error'' (Some ''Chart unavailable.'') ?s1)"
            using resp by (simp add: run loadHabitProgress_try_def n Let_def)
          moreover have "progress_failure env s = Some ChartMissing"
            using resp False by (simp add: progress_failure_def)
          ultimately show ?thesis
            using error_epilogue [OF cv1 ph1 ts1 inv1, of "''Chart unavailable.''"
                "''Progress chart unavailable right now''"]
            by simp
        next
          case defined: True
          have try2: "loadHabitProgress_try env i ?s0 =
            (case data_dates data of
               None \<Rightarrow> Inl (TypeError, ?s2)
             | Some ds \<Rightarrow>
                 (case data_habit data of
                    None \<Rightarrow> Inl (TypeError, ?s2)
                  | Some hb \<Rightarrow>
                      if \<not> chart_constructs env (length (requests s))
                      then Inl (ChartError, ?s2)
                      else Inr (updateChartVisibility ''ready'' None
                             (?s2\<lparr>charts := charts ?s2 @
                                     [\<lparr>chart_labels = map (drop 5) ds,
                                       chart_ideal = data_ideal data,
                                       chart_actual = data_actual data,
                                       chart_color = string_or (snapshot_color hb) ''#54e0a6'',
                                       chart_title =
                                         snapshot_name hb @ '' ('' @
                                         jsval_to_string (number_digits env)
                                           (snapshot_target hb) @ ''/week ideal)'',
                                       chart_destroyed = False\<rparr>],
                                   habitChart := Some (length (charts ?s2))\<rparr>))))"
            using resp defined cv1
            by (simp add: loadHabitProgress_try_def n Let_def)
          show ?thesis
          proof (cases "data_dates data = None \<or> data_habit data = None")
            case True
            then have "loadHabitProgress env s =
                showToast ''Could not load progress'' ''error''
                  (updateChartVisibility ''error'' (Some ''Could not load progress right now.'')
                     (console_error TypeError ?s2))"
              by (auto simp add: run try2 split: option.splits)
            moreover have "progress_failure env s = Some MalformedPayload"
              using resp defined True by (simp add: progress_failure_def)
            ultimately show ?thesis using caught2 [of TypeError] by simp
          next
            case wellformed: False
            then obtain ds hb where ds: "data_dates data = Some ds"
              and hb: "data_habit data = Some hb" by auto
            show ?thesis
            proof (cases "chart_constructs env (length (requests s))")
              case False
              then have "loadHabitProgress env s =
                  showToast ''Could not load progress'' ''error''
                    (updateChartVisibility ''error''
                       (Some ''Could not load progress right now.'')
                       (console_error ChartError ?s2))"
                by (simp add: run try2 ds hb)
              moreover have "progress_failure env s = Some ConstructorThrows"
                using resp defined wellformed False by (simp add: progress_failure_def)
              ultimately show ?thesis using caught2 [of ChartError] by simp
            next
              case True
              let ?s3 = "?s2\<lparr>charts := charts ?s2 @
                                     [\<lparr>chart_labels = map (drop 5) ds,
                                       chart_ideal = data_ideal data,
                                       chart_actual = data_actual data,
                                       chart_color = string_or (snapshot_color hb) ''#54e0a6'',
                                       chart_title =
                                         snapshot_name hb @ '' ('' @
                                         jsval_to_string (number_digits env)
                                           (snapshot_target hb) @ ''/week ideal)'',
                                       chart_destroyed = False\<rparr>],
                                   habitChart := Some (length (charts ?s2))\<rparr>"
              have "loadHabitProgress env s = updateChartVisibility ''ready'' None ?s3"
                using True by (simp add: run try2 ds hb)
              moreover have "el_habitChart ?s3 = Some ?cv" "el_chartEmptyState ?s3 = Some ?ph"
                using cv2 ph2 by simp_all
              then have "visibility_state (updateChartVisibility ''ready'' None ?s3) =
                  Some ''ready''"
                by (simp add: updateChartVisibility_ready visibility_state_def
                      shown_placeholder_def)
              moreover have "progress_failure env s = None"
                using resp defined wellformed True by (simp add: progress_failure_def)
              ultimately show ?thesis by simp
            qed
          qed
        qed
      qed
    qed
  qed
qed


lemma chart_inv_page: "chart_inv page"
  by (simp add: chart_inv_def page_def live_charts_def)

text \<open>
  Claim C3. When the current-habit identifier is null (or the falsy identifier 0),
  \<open>loadHabitProgress\<close> does nothing. When it is a truthy identifier, on a page that has the canvas, the placeholder and the
  toast container and whose chart handle is the only live chart, every failure of the load
  (transport error, non-success status, a body that is not JSON, no \<open>Chart\<close> global, a
  payload without its dates or habit, a constructor that throws) ends with the
  visibility state \<open>error\<close>, never \<open>loading\<close>, a non-empty message in the visible
  placeholder, one more toast, a null chart handle and no live chart instance. A load that
  does not fail ends with the state \<open>ready\<close>.
\<close>

theorem loadHabitProgress_failure_shows_error:
  "(currentHabitId s = None \<or> currentHabitId s = Some 0 \<longrightarrow> loadHabitProgress env s = s) \<and>
   (\<forall>i f cv ph ts.
      currentHabitId s = Some i \<and> i \<noteq> 0 \<and> progress_failure env s = Some f \<and>
      el_habitChart s = Some cv \<and> el_chartEmptyState s = Some ph \<and>
      el_toastContainer s = Some ts \<and> chart_inv s \<longrightarrow>
        visibility_state (loadHabitProgress env s) = Some ''error'' \<and>
        visibility_state (loadHabitProgress env s) \<noteq> Some ''loading'' \<and>
        placeholder_text (loadHabitProgress env s) =
          (if f = ChartMissing then ''Chart unavailable.''
           else ''Could not load progress right now.'') \<and>
        placeholder_text (loadHabitProgress env s) \<noteq> [] \<and>
        placeholder_visible (loadHabitProgress env s) \<and>
        toasts (loadHabitProgress env s) =
          ts @ [\<lparr>toast_classes = [''toast'', ''error''],
                  toast_text = (if f = ChartMissing then ''Progress chart unavailable right now''
                                else ''Could not load progress'')\<rparr>] \<and>
        habitChart (loadHabitProgress env s) = None \<and>
        live_charts (loadHabitProgress env s) = []) \<and>
   (\<forall>i cv ph ts.
      currentHabitId s = Some i \<and> i \<noteq> 0 \<and> progress_failure env s = None \<and>
      el_habitChart s = Some cv \<and> el_chartEmptyState s = Some ph \<and>
      el_toastContainer s = Some ts \<and> chart_inv s \<longrightarrow>
        visibility_state (loadHabitProgress env s) = Some ''ready'')"
proof (intro conjI allI impI)
  assume "currentHabitId s = None \<or> currentHabitId s = Some 0"
  then show "loadHabitProgress env s = s" by (auto simp add: loadHabitProgress_def)
next
  fix i f cv ph ts
  assume a: "currentHabitId s = Some i \<and> i \<noteq> 0 \<and> progress_failure env s = Some f \<and>
      el_habitChart s = Some cv \<and> el_chartEmptyState s = Some ph \<and>
      el_toastContainer s = Some ts \<and> chart_inv s"
  then have e: "shows_error
       (if f = ChartMissing then ''Chart unavailable.''
        else ''Could not load progress right now.'')
       (if f = ChartMissing then ''Progress chart unavailable right now''
        else ''Could not load progress'')
       ts (loadHabitProgress env s)"
    using loadHabitProgress_outcome [of s i cv ph ts env] by simp
  from e show "visibility_state (loadHabitProgress env s) = Some ''error''"
    by (simp add: shows_error_def)
  from e show "visibility_state (loadHabitProgress env s) \<noteq> Some ''loading''"
    by (simp add: shows_error_def)
  from e show "placeholder_text (loadHabitProgress env s) =
          (if f = ChartMissing then ''Chart unavailable.''
           else ''Could not load progress right now.'')"
    by (simp add: shows_error_def)
  from e show "placeholder_text (loadHabitProgress env s) \<noteq> []"
    by (simp add: shows_error_def split: if_splits)
  from e show "placeholder_visible (loadHabitProgress env s)"
    by (simp add: shows_error_def)
  from e show "toasts (loadHabitProgress env s) =
          ts @ [\<lparr>toast_classes = [''toast'', ''error''],
                  toast_text = (if f = ChartMissing then ''Progress chart unavailable right now''
                                else ''Could not load progress'')\<rparr>]"
    by (simp add: shows_error_def)
  from e show "habitChart (loadHabitProgress env s) = None"
    by (simp add: shows_error_def)
  from e show "live_charts (loadHabitProgress env s) = []"
    by (simp add: shows_error_def)
next
  fix i cv ph ts
  assume "currentHabitId s = Some i \<and> i \<noteq> 0 \<and> progress_failure env s = None \<and>
      el_habitChart s = Some cv \<and> el_chartEmptyState s = Some ph \<and>
      el_toastContainer s = Some ts \<and> chart_inv s"
  then show "visibility_state (loadHabitProgress env s) = Some ''ready''"
    using loadHabitProgress_outcome [of s i cv ph ts env] by simp
qed


theorem loadHabitProgress_failure_shows_error_witness:
  "visibility_state (loadHabitProgress server_down page_charted) = Some ''error'' \<and>
   placeholder_text (loadHabitProgress server_down page_charted) =
     ''Could not load progress right now.'' \<and>
   toasts (loadHabitProgress server_down page_charted) =
     [\<lparr>toast_classes = [''toast'', ''error''], toast_text = ''Could not load progress''\<rparr>] \<and>
   habitChart (loadHabitProgress server_down page_charted) = None \<and>
   live_charts (loadHabitProgress server_down page_charted) = [] \<and>
   live_charts page_charted \<noteq> [] \<and>
   loadHabitProgress server_down page = page \<and>
   visibility_state (loadHabitProgress server_up page_charted) = Some ''ready''"
proof -
  note r = loadHabitProgress_failure_shows_error [of page_charted server_down]
  have "currentHabitId page = None" by (simp add: page_def)
  then have noop: "loadHabitProgress server_down page = page"
    using loadHabitProgress_failure_shows_error [of page server_down] by simp
  have live: "live_charts page_charted \<noteq> []"
    by (simp add: page_charted_def live_charts_def)
  note f = r [THEN conjunct2, THEN conjunct1, rule_format,
      of 1 TransportError "\<lparr>style_display = [], canvas_aria_hidden = None\<rparr>"
         "\<lparr>textContent = [], dataset_state = None, aria_hidden = None, classList = []\<rparr>" "[]"]
  have "visibility_state (loadHabitProgress server_down page_charted) = Some ''error'' \<and>
   placeholder_text (loadHabitProgress server_down page_charted) =
     ''Could not load progress right now.'' \<and>
   toasts (loadHabitProgress server_down page_charted) =
     [\<lparr>toast_classes = [''toast'', ''error''], toast_text = ''Could not load progress''\<rparr>] \<and>
   habitChart (loadHabitProgress server_down page_charted) = None \<and>
   live_charts (loadHabitProgress server_down page_charted) = []"
    using f
    by (simp add: page_charted_def page_def server_down_def progress_failure_def chart_inv_def
          live_charts_def destroy_def)
  moreover have "visibility_state (loadHabitProgress server_up page_charted) = Some ''ready''"
    using loadHabitProgress_failure_shows_error
            [of page_charted server_up, THEN conjunct2, THEN conjunct2, rule_format,
             of 1 "\<lparr>style_display = [], canvas_aria_hidden = None\<rparr>"
                "\<lparr>textContent = [], dataset_state = None, aria_hidden = None, classList = []\<rparr>"
                "[]"]
    by (simp add: page_charted_def page_def server_up_def sample_progress_def
          progress_failure_def chart_inv_def live_charts_def destroy_def)
  ultimately show ?thesis using noop live by simp
qed

section \<open>Invocations of the orchestrator\<close>

lemma updateHabitSelectOptions_frame [frame]:
  "progress_calls (updateHabitSelectOptions habits s) = progress_calls s"
  "currentRange (updateHabitSelectOptions habits s) = currentRange s"
  "requests (updateHabitSelectOptions habits s) = requests s"
  "console (updateHabitSelectOptions habits s) = console s"
  "el_toastContainer (updateHabitSelectOptions habits s) = el_toastContainer s"
  "el_habitChart (updateHabitSelectOptions habits s) = el_habitChart s"
  "el_chartEmptyState (updateHabitSelectOptions habits s) = el_chartEmptyState s"
  by (simp_all add: updateHabitSelectOptions_def Let_def split: option.splits prod.splits list.splits)

lemma renderHabits_frame [frame]:
  "progress_calls (renderHabits env habits s) = progress_calls s"
  "currentRange (renderHabits env habits s) = currentRange s"
  "currentHabitId (renderHabits env habits s) = currentHabitId s"
  "el_habitSelect (renderHabits env habits s) = el_habitSelect s"
  "requests (renderHabits env habits s) = requests s"
  "console (renderHabits env habits s) = console s"
  "el_toastContainer (renderHabits env habits s) = el_toastContainer s"
  by (simp_all add: renderHabits_def frame split: option.splits)

lemma setupRangeButtons_frame [frame]:
  "progress_calls (setupRangeButtons s) = progress_calls s"
  "currentRange (setupRangeButtons s) = currentRange s"
  "currentHabitId (setupRangeButtons s) = currentHabitId s"
  "el_habitSelect (setupRangeButtons s) = el_habitSelect s"
  "requests (setupRangeButtons s) = requests s"
  "console (setupRangeButtons s) = console s"
  "el_toastContainer (setupRangeButtons s) = el_toastContainer s"
  "el_habitChart (setupRangeButtons s) = el_habitChart s"
  "el_chartEmptyState (setupRangeButtons s) = el_chartEmptyState s"
  "habitChart (setupRangeButtons s) = habitChart s"
  "charts (setupRangeButtons s) = charts s"
  by (simp_all add: setupRangeButtons_def split: option.splits)

lemma loadHabitProgress_try_frame:
  "loadHabitProgress_try env i s = Inr s' \<or> loadHabitProgress_try env i s = Inl (err, s') \<Longrightarrow>
   progress_calls s' = progress_calls s \<and> currentRange s' = currentRange s \<and>
   currentHabitId s' = currentHabitId s \<and> el_habitSelect s' = el_habitSelect s"
  by (auto simp add: loadHabitProgress_try_def Let_def frame
        split: fetch_result.splits option.splits if_splits)

lemma loadHabitProgress_frame [frame]:
  "progress_calls (loadHabitProgress env s) = progress_calls s"
  "currentRange (loadHabitProgress env s) = currentRange s"
  "currentHabitId (loadHabitProgress env s) = currentHabitId s"
  "el_habitSelect (loadHabitProgress env s) = el_habitSelect s"
proof -
  have "progress_calls (loadHabitProgress env s) = progress_calls s \<and>
        currentRange (loadHabitProgress env s) = currentRange s \<and>
        currentHabitId (loadHabitProgress env s) = currentHabitId s \<and>
        el_habitSelect (loadHabitProgress env s) = el_habitSelect s"
  proof (cases "currentHabitId s")
    case None
    then show ?thesis by (simp add: loadHabitProgress_def)
  next
    case (Some i)
    let ?s0 = "updateChartVisibility ''loading'' (Some ''Loading progress...'') s"
    show ?thesis
    proof (cases "loadHabitProgress_try env i ?s0")
      case (Inl p)
      obtain err s' where p: "p = (err, s')" by (cases p)
      with Inl loadHabitProgress_try_frame [of env i ?s0 s' err] Some show ?thesis
        by (simp add: loadHabitProgress_def frame)
    next
      case (Inr s')
      with loadHabitProgress_try_frame [of env i ?s0 s'] Some show ?thesis
        by (simp add: loadHabitProgress_def frame)
    qed
  qed
  then show "progress_calls (loadHabitProgress env s) = progress_calls s"
    "currentRange (loadHabitProgress env s) = currentRange s"
    "currentHabitId (loadHabitProgress env s) = currentHabitId s"
    "el_habitSelect (loadHabitProgress env s) = el_habitSelect s"
    by simp_all
qed

lemma call_loadHabitProgress_calls [frame]:
  "progress_calls (call_loadHabitProgress env s) =
     progress_calls s @ [(currentHabitId s, currentRange s)]"
  "currentRange (call_loadHabitProgress env s) = currentRange s"
  "currentHabitId (call_loadHabitProgress env s) = currentHabitId s"
  "el_habitSelect (call_loadHabitProgress env s) = el_habitSelect s"
  by (simp_all add: call_loadHabitProgress_def frame)

lemma ensureDemoSeed_resume_frame [frame]:
  "progress_calls (snd (ensureDemoSeed_resume env k s)) = progress_calls s"
  "currentRange (snd (ensureDemoSeed_resume env k s)) = currentRange s"
  "currentHabitId (snd (ensureDemoSeed_resume env k s)) = currentHabitId s"
  "el_habitSelect (snd (ensureDemoSeed_resume env k s)) = el_habitSelect s"
  "console (snd (ensureDemoSeed_resume env k s)) = console s"
  "el_toastContainer (snd (ensureDemoSeed_resume env k s)) = el_toastContainer s"
  "el_habitChart (snd (ensureDemoSeed_resume env k s)) = el_habitChart s"
  "el_chartEmptyState (snd (ensureDemoSeed_resume env k s)) = el_chartEmptyState s"
  by (simp_all add: ensureDemoSeed_resume_def frame split: fetch_result.splits option.splits)

lemma ensureDemoSeed_resume_requests:
  "Suc (length (requests (snd (ensureDemoSeed_resume env k s)))) =
     length (requests s) + seed_requests env k"
  by (simp add: ensureDemoSeed_resume_def seed_requests_def frame
        split: fetch_result.splits option.splits)

lemma ensureDemoSeed_frame [frame]:
  "length (requests (snd (ensureDemoSeed env s))) =
     length (requests s) + seed_requests env (length (requests s))"
  "progress_calls (snd (ensureDemoSeed env s)) = progress_calls s"
  "currentRange (snd (ensureDemoSeed env s)) = currentRange s"
  "currentHabitId (snd (ensureDemoSeed env s)) = currentHabitId s"
  "el_habitSelect (snd (ensureDemoSeed env s)) = el_habitSelect s"
  "console (snd (ensureDemoSeed env s)) = console s"
  "el_toastContainer (snd (ensureDemoSeed env s)) = el_toastContainer s"
  "el_habitChart (snd (ensureDemoSeed env s)) = el_habitChart s"
  "el_chartEmptyState (snd (ensureDemoSeed env s)) = el_chartEmptyState s"
  using ensureDemoSeed_resume_requests [of env "length (requests s)" "send GET_habits s"]
  by (simp_all add: ensureDemoSeed_def frame)

lemma loadHabits_resume_fetched:
  assumes "get_habits env (length (requests (snd (ensureDemoSeed_resume env k t)))) =
             Response True (Some habits)"
  shows "loadHabits_resume env k t =
     (let s3 = setupRangeButtons
                 (updateHabitSelectOptions habits
                    (renderHabits env habits
                       (send GET_habits (snd (ensureDemoSeed_resume env k t)))))
      in if truthy (currentHabitId s3) then call_loadHabitProgress env s3
         else updateChartVisibility ''empty'' (Some DEFAULT_CHART_MESSAGE) s3)"
  using assms
  by (simp add: loadHabits_resume_def loadHabits_try_def Let_def case_prod_beta)


lemma fetched_habits_answer:
  assumes "fetched_habits env (length (requests s)) = Some habits"
  shows "get_habits env (length (requests (snd (ensureDemoSeed env s)))) =
           Response True (Some habits)"
  using assms
  by (auto simp add: fetched_habits_def frame split: fetch_result.splits if_splits)

lemma loadHabits_fetched:
  assumes "fetched_habits env (length (requests s)) = Some habits"
  shows "loadHabits env s =
     (let s3 = setupRangeButtons
                 (updateHabitSelectOptions habits
                    (renderHabits env habits (send GET_habits (snd (ensureDemoSeed env s)))))
      in if truthy (currentHabitId s3) then call_loadHabitProgress env s3
         else updateChartVisibility ''empty'' (Some DEFAULT_CHART_MESSAGE) s3)"
  using fetched_habits_answer [OF assms] loadHabits_resume_fetched
  by (simp add: loadHabits_def ensureDemoSeed_def)





lemma renderIdealSelfSummary_frame [frame]:
  "progress_calls (renderIdealSelfSummary v fs s) = progress_calls s"
  "currentRange (renderIdealSelfSummary v fs s) = currentRange s"
  "currentHabitId (renderIdealSelfSummary v fs s) = currentHabitId s"
  "el_habitSelect (renderIdealSelfSummary v fs s) = el_habitSelect s"
  "requests (renderIdealSelfSummary v fs s) = requests s"
  "console (renderIdealSelfSummary v fs s) = console s"
  "el_toastContainer (renderIdealSelfSummary v fs s) = el_toastContainer s"
  by (simp_all add: renderIdealSelfSummary_def Let_def split: option.splits)

lemma loadIdealSelf_resume_frame [frame]:
  "requests (loadIdealSelf_resume env k s) = requests s"
  "progress_calls (loadIdealSelf_resume env k s) = progress_calls s"
  "currentRange (loadIdealSelf_resume env k s) = currentRange s"
  "currentHabitId (loadIdealSelf_resume env k s) = currentHabitId s"
  "el_habitSelect (loadIdealSelf_resume env k s) = el_habitSelect s"
  "el_toastContainer (loadIdealSelf_resume env k s) = el_toastContainer s"
  by (simp_all add: loadIdealSelf_resume_def loadIdealSelf_try_def Let_def frame
        split: fetch_result.splits option.splits)

lemma loadJournalEntries_resume_frame [frame]:
  "requests (loadJournalEntries_resume env k s) = requests s"
  "progress_calls (loadJournalEntries_resume env k s) = progress_calls s"
  "currentRange (loadJournalEntries_resume env k s) = currentRange s"
  "currentHabitId (loadJournalEntries_resume env k s) = currentHabitId s"
  "el_habitSelect (loadJournalEntries_resume env k s) = el_habitSelect s"
  by (simp_all add: loadJournalEntries_resume_def loadJournalEntries_try_def Let_def frame
        split: fetch_result.splits option.splits)








section \<open>Failures of the gateway\<close>

lemma toasts_cong: "el_toastContainer t = el_toastContainer s \<Longrightarrow> toasts t = toasts s"
  by (simp add: toasts_def)

lemma toasts_showToast:
  "toasts (showToast m ''error'' s) =
     toasts s @ (if el_toastContainer s = None then []
                 else [\<lparr>toast_classes = [''toast'', ''error''], toast_text = m\<rparr>])"
  by (simp add: toasts_def showToast_def class_add_def split: option.splits)

lemma error_state:
  assumes "el_habitChart t = Some cv" and "el_chartEmptyState t = Some ph" and "m \<noteq> []"
  shows "visibility_state (updateChartVisibility ''error'' (Some m) t) = Some ''error'' \<and>
         placeholder_text (updateChartVisibility ''error'' (Some m) t) = m"
proof -
  have ne: "''error'' \<noteq> ''ready''" by simp
  show ?thesis
    using assms(3)
    by (simp add: updateChartVisibility_other [OF assms(1,2) ne] Let_def visibility_state_def
          placeholder_text_def shown_placeholder_def frame split: option.splits)
qed

lemma response_failure_cases:
  assumes "response_failure msg reads_body r = Some err"
  obtains "r = Rejected" "err = NetworkFailure"
  | body where "r = Response False body" "err = Error msg"
  | "r = Response True None" "reads_body" "err = SyntaxError"
  using assms
  by (cases r) (auto simp add: response_failure_def split: if_splits)

lemma loadIdealSelf_failure:
  assumes "request_failure env LoadIdealSelf s = Some err"
  shows "attempt env LoadIdealSelf s = Inl (err, send GET_idealself s)"
    and "loadIdealSelf env s = console_error err (send GET_idealself s)"
  using assms
  by (auto elim!: response_failure_cases
        simp add: loadIdealSelf_def loadIdealSelf_resume_def loadIdealSelf_try_def)

lemma saveIdealSelf_failure:
  assumes "request_failure env SaveIdealSelf s = Some err"
  shows "attempt env SaveIdealSelf s = Inl (err, send POST_idealself s)"
    and "saveIdealSelf env s =
     showToast ''Could not save ideal self'' ''error'' (console_error err (send POST_idealself s))"
  using assms
  by (auto elim!: response_failure_cases simp add: saveIdealSelf_def saveIdealSelf_try_def Let_def)

lemma loadJournalEntries_failure:
  assumes "request_failure env LoadJournalEntries s = Some err"
  shows "attempt env LoadJournalEntries s = Inl (err, send GET_journal s)"
    and "loadJournalEntries env s =
     showToast ''Could not load journal entries'' ''error''
       (console_error err (send GET_journal s))"
  using assms
  by (auto elim!: response_failure_cases
        simp add: loadJournalEntries_def loadJournalEntries_resume_def
          loadJournalEntries_try_def)

lemma addJournalEntry_failure:
  assumes "request_failure env AddJournalEntry s = Some err"
  shows "attempt env AddJournalEntry s = Inl (err, send POST_journal s)"
    and "addJournalEntry env s =
     showToast ''Could not save entry'' ''error'' (console_error err (send POST_journal s))"
  using assms
  by (auto elim!: response_failure_cases
        simp add: addJournalEntry_def addJournalEntry_try_def Let_def split: if_splits)

lemma addHabit_failure:
  assumes "request_failure env (AddHabit name) s = Some err"
  shows "attempt env (AddHabit name) s = Inl (err, send POST_habits s)"
    and "addHabit env name s =
     showToast ''Could not add habit'' ''error'' (console_error err (send POST_habits s))"
  using assms
  by (auto elim!: response_failure_cases simp add: addHabit_def addHabit_try_def Let_def
        split: if_splits)

lemma toggleHabitCompletion_failure:
  assumes "request_failure env (ToggleHabitCompletion h) s = Some err"
  shows "attempt env (ToggleHabitCompletion h) s = Inl (err, send (PUT_habit (habit_id h)) s)"
    and "toggleHabitCompletion env h s =
     showToast ''Could not update habit'' ''error''
       (console_error err (send (PUT_habit (habit_id h)) s))"
  using assms
  by (auto elim!: response_failure_cases
        simp add: toggleHabitCompletion_def toggleHabitCompletion_try_def Let_def)

lemma demoSeedBtn_failure:
  assumes "request_failure env DemoSeed s = Some err"
  shows "attempt env DemoSeed s = Inl (err, send POST_demo_reset s)"
    and "demoSeedBtn_click env s =
     showToast ''Could not load demo data'' ''error''
       (console_error err (send POST_demo_reset s))"
  using assms
  by (auto simp add: demoSeedBtn_click_def demoSeedBtn_try_def Let_def
        split: fetch_result.splits)

lemma loadHabits_failure:
  assumes "request_failure env LoadHabits s = Some err"
  shows "attempt env LoadHabits s = Inl (err, send GET_habits (snd (ensureDemoSeed env s)))"
    and "loadHabits env s =
     updateChartVisibility ''error'' (Some ''Could not load habits.'')
       (showToast ''Could not load habits'' ''error''
          (console_error err (send GET_habits (snd (ensureDemoSeed env s)))))"
proof -
  have "response_failure ''Failed to fetch habits'' True
          (get_habits env (length (requests (snd (ensureDemoSeed env s))))) = Some err"
    using assms by (simp add: frame)
  then have "response_failure ''Failed to fetch habits'' True
          (get_habits env
             (length (requests (snd (ensureDemoSeed_resume env (length (requests s))
                                       (send GET_habits s)))))) = Some err"
    by (simp add: ensureDemoSeed_def)
  then show "attempt env LoadHabits s = Inl (err, send GET_habits (snd (ensureDemoSeed env s)))"
    and "loadHabits env s =
     updateChartVisibility ''error'' (Some ''Could not load habits.'')
       (showToast ''Could not load habits'' ''error''
          (console_error err (send GET_habits (snd (ensureDemoSeed env s)))))"
    by (auto elim!: response_failure_cases
          simp add: loadHabits_def loadHabits_resume_def loadHabits_try_def ensureDemoSeed_def
            Let_def case_prod_beta)
qed

lemma loadHabitProgress_request_failure:
  assumes "request_failure env LoadHabitProgress s = Some err"
  shows "\<exists>i. currentHabitId s = Some i \<and>
     attempt env LoadHabitProgress s =
       Inl (err, send (GET_progress i (currentRange s))
                   (updateChartVisibility ''loading'' (Some ''Loading progress...'') s)) \<and>
     loadHabitProgress env s =
       showToast ''Could not load progress'' ''error''
         (updateChartVisibility ''error'' (Some ''Could not load progress right now.'')
            (console_error err
               (send (GET_progress i (currentRange s))
                  (updateChartVisibility ''loading'' (Some ''Loading progress...'') s))))"
proof -
  obtain i where i: "currentHabitId s = Some i" "i \<noteq> 0"
    using assms by (cases "currentHabitId s") (auto split: if_splits)
  then have "response_failure ''Failed to fetch progress'' True
               (get_progress env (length (requests s))) = Some err"
    using assms by simp
  then have "attempt env LoadHabitProgress s =
       Inl (err, send (GET_progress i (currentRange s))
                   (updateChartVisibility ''loading'' (Some ''Loading progress...'') s)) \<and>
     loadHabitProgress env s =
       showToast ''Could not load progress'' ''error''
         (updateChartVisibility ''error'' (Some ''Could not load progress right now.'')
            (console_error err
               (send (GET_progress i (currentRange s))
                  (updateChartVisibility ''loading'' (Some ''Loading progress...'') s))))"
    using i
    by (auto elim!: response_failure_cases
          simp add: loadHabitProgress_def loadHabitProgress_try_def Let_def frame)
  with i show ?thesis by blast
qed

lemma request_failure_thrown:
  assumes "request_failure env op s = Some err"
  shows "\<exists>s'. attempt env op s = Inl (err, s')"
proof (cases op)
  case LoadIdealSelf
  with assms loadIdealSelf_failure(1) [of env s err] show ?thesis by blast
next
  case SaveIdealSelf
  with assms saveIdealSelf_failure(1) [of env s err] show ?thesis by blast
next
  case LoadJournalEntries
  with assms loadJournalEntries_failure(1) [of env s err] show ?thesis by blast
next
  case AddJournalEntry
  with assms addJournalEntry_failure(1) [of env s err] show ?thesis by blast
next
  case LoadHabits
  with assms loadHabits_failure(1) [of env s err] show ?thesis by blast
next
  case (AddHabit name)
  with assms addHabit_failure(1) [of env name s err] show ?thesis by blast
next
  case (ToggleHabitCompletion h)
  with assms toggleHabitCompletion_failure(1) [of env h s err] show ?thesis by blast
next
  case LoadHabitProgress
  with assms loadHabitProgress_request_failure [of env s err] show ?thesis by blast
next
  case DemoSeed
  with assms demoSeedBtn_failure(1) [of env s err] show ?thesis by blast
qed

lemma run_attempt:
  "run env op s =
     (case attempt env op s of
        Inr s' \<Rightarrow> s'
      | Inl (err, s') \<Rightarrow> catch_block op err s')"
proof (cases op)
  case LoadHabitProgress
  then show ?thesis
    by (simp add: loadHabitProgress_def split: option.splits sum.splits prod.splits)
qed (simp_all add: loadIdealSelf_def loadIdealSelf_resume_def saveIdealSelf_def
       loadJournalEntries_def loadJournalEntries_resume_def addJournalEntry_def Let_def
       loadHabits_def loadHabits_resume_def addHabit_def toggleHabitCompletion_def
       demoSeedBtn_click_def split: sum.splits prod.splits)

lemma caught_with_toast:
  assumes "u = showToast m ''error'' (console_error err t)"
    and "console t = console s" and "el_toastContainer t = el_toastContainer s"
  shows "console u = console s @ [err] \<and>
         toasts u = toasts s @ (if el_toastContainer s = None then []
                                else [\<lparr>toast_classes = [''toast'', ''error''], toast_text = m\<rparr>])"
proof -
  have "toasts (console_error err t) = toasts s"
    by (rule toasts_cong) (simp add: frame assms(3))
  then show ?thesis
    using assms by (simp add: toasts_showToast frame)
qed

lemma caught_effects:
  assumes "request_failure env op s = Some err"
  shows "console (run env op s) = console s @ [err] \<and>
         toasts (run env op s) =
           toasts s @
           (case failure_toast op of
              None \<Rightarrow> []
            | Some m \<Rightarrow>
                if el_toastContainer s = None then []
                else [\<lparr>toast_classes = [''toast'', ''error''], toast_text = m\<rparr>]) \<and>
         (\<forall>m cv ph. failure_chart_message op = Some m \<and> el_habitChart s = Some cv \<and>
                    el_chartEmptyState s = Some ph \<longrightarrow>
            visibility_state (run env op s) = Some ''error'' \<and>
            placeholder_text (run env op s) = m)"
proof (cases op)
  case LoadIdealSelf
  have "toasts (console_error err (send GET_idealself s)) = toasts s"
    by (rule toasts_cong) (simp add: frame)
  then show ?thesis
    using assms LoadIdealSelf loadIdealSelf_failure(2) [of env s err] by (simp add: frame)
next
  case SaveIdealSelf
  then show ?thesis
    using assms caught_with_toast [OF saveIdealSelf_failure(2) [of env s err], of s]
    by (simp add: frame)
next
  case LoadJournalEntries
  then show ?thesis
    using assms caught_with_toast [OF loadJournalEntries_failure(2) [of env s err], of s]
    by (simp add: frame)
next
  case AddJournalEntry
  then show ?thesis
    using assms caught_with_toast [OF addJournalEntry_failure(2) [of env s err], of s]
    by (simp add: frame)
next
  case LoadHabits
  let ?t = "send GET_habits (snd (ensureDemoSeed env s))"
  let ?u = "showToast ''Could not load habits'' ''error'' (console_error err ?t)"
  have run: "loadHabits env s = updateChartVisibility ''error'' (Some ''Could not load habits.'') ?u"
    using assms LoadHabits by (simp add: loadHabits_failure(2))
  have u: "console ?u = console s @ [err] \<and>
         toasts ?u = toasts s @ (if el_toastContainer s = None then []
            else [\<lparr>toast_classes = [''toast'', ''error''], toast_text = ''Could not load habits''\<rparr>])"
    by (rule caught_with_toast [OF refl]) (simp_all add: frame)
  have "toasts (updateChartVisibility ''error'' (Some ''Could not load habits.'') ?u) = toasts ?u"
    by (rule toasts_cong) (simp add: frame)
  moreover have "visibility_state (updateChartVisibility ''error'' (Some ''Could not load habits.'') ?u) =
         Some ''error'' \<and>
       placeholder_text (updateChartVisibility ''error'' (Some ''Could not load habits.'') ?u) =
         ''Could not load habits.''"
    if "el_habitChart s = Some cv" "el_chartEmptyState s = Some ph" for cv ph
    using that by (intro error_state [of _ cv ph]) (simp_all add: frame)
  ultimately show ?thesis
    using u LoadHabits by (auto simp add: run frame)
next
  case (AddHabit name)
  then show ?thesis
    using assms caught_with_toast [OF addHabit_failure(2) [of env name s err], of s]
    by (simp add: frame)
next
  case (ToggleHabitCompletion h)
  then show ?thesis
    using assms caught_with_toast [OF toggleHabitCompletion_failure(2) [of env h s err], of s]
    by (simp add: frame)
next
  case DemoSeed
  then show ?thesis
    using assms caught_with_toast [OF demoSeedBtn_failure(2) [of env s err], of s]
    by (simp add: frame)
next
  case LoadHabitProgress
  obtain i where i: "currentHabitId s = Some i"
    and run: "loadHabitProgress env s =
       showToast ''Could not load progress'' ''error''
         (updateChartVisibility ''error'' (Some ''Could not load progress right now.'')
            (console_error err
               (send (GET_progress i (currentRange s))
                  (updateChartVisibility ''loading'' (Some ''Loading progress...'') s))))"
    using assms LoadHabitProgress loadHabitProgress_request_failure [of env s err] by auto
  let ?t = "console_error err
               (send (GET_progress i (currentRange s))
                  (updateChartVisibility ''loading'' (Some ''Loading progress...'') s))"
  let ?u = "updateChartVisibility ''error'' (Some ''Could not load progress right now.'') ?t"
  have c: "console (showToast ''Could not load progress'' ''error'' ?u) = console s @ [err]"
    by (simp add: frame)
  have "toasts ?u = toasts s"
    by (rule toasts_cong) (simp add: frame)
  then have ts: "toasts (showToast ''Could not load progress'' ''error'' ?u) =
      toasts s @ (if el_toastContainer s = None then []
            else [\<lparr>toast_classes = [''toast'', ''error''], toast_text = ''Could not load progress''\<rparr>])"
    by (simp add: toasts_showToast frame)
  have "visibility_state (showToast ''Could not load progress'' ''error'' ?u) = Some ''error'' \<and>
        placeholder_text (showToast ''Could not load progress'' ''error'' ?u) =
          ''Could not load progress right now.''"
    if cv: "el_habitChart s = Some cv" and ph: "el_chartEmptyState s = Some ph" for cv ph
  proof -
    have "visibility_state ?u = Some ''error'' \<and>
          placeholder_text ?u = ''Could not load progress right now.''"
      by (rule error_state) (simp_all add: frame loading_state [OF cv ph])
    then show ?thesis
      by (simp add: visibility_state_def placeholder_text_def frame)
  qed
  then show ?thesis
    using c ts LoadHabitProgress by (auto simp add: run)
qed

lemma ensureDemoSeed_swallows:
  "seed_check_fails env (length (requests s)) \<Longrightarrow>
     ensureDemoSeed env s = (False, send GET_habits s)"
  "console (snd (ensureDemoSeed env s)) = console s"
  "toasts (snd (ensureDemoSeed env s)) = toasts s"
  "ensureDemoSeed (env\<lparr>post_demo_reset := reset\<rparr>) s = ensureDemoSeed env s"
proof -
  show "seed_check_fails env (length (requests s)) \<Longrightarrow>
     ensureDemoSeed env s = (False, send GET_habits s)"
    by (auto simp add: seed_check_fails_def ensureDemoSeed_def ensureDemoSeed_resume_def
          split: fetch_result.splits)
  show "console (snd (ensureDemoSeed env s)) = console s"
    by (simp add: frame)
  show "toasts (snd (ensureDemoSeed env s)) = toasts s"
    by (rule toasts_cong) (simp add: frame)
  show "ensureDemoSeed (env\<lparr>post_demo_reset := reset\<rparr>) s = ensureDemoSeed env s"
    by (simp add: ensureDemoSeed_def ensureDemoSeed_resume_def)
qed

lemma demoSeedBtn_answered:
  assumes "post_demo_reset env (length (requests s)) = Response ok body"
  shows "demoSeedBtn_click env s =
     loadJournalEntries env
       (loadHabits env (showToast ''Demo data loaded'' ''success'' (send POST_demo_reset s)))"
  using assms by (simp add: demoSeedBtn_click_def demoSeedBtn_try_def Let_def)

text \<open>
  Claim C8, as the script has it. Every operation ends in a state: what is thrown in its
  \<^verbatim>\<open>try\<close> block is handed to its own \<^verbatim>\<open>catch\<close> block, which returns, so no failure leaves
  the operation as a rejection. When the request an operation issues itself fails
  (transport error, non-success status, or a body it reads that is not JSON), the failure
  is thrown in that \<^verbatim>\<open>try\<close> block and the \<^verbatim>\<open>catch\<close> block logs the error with
  \<^verbatim>\<open>console.error\<close>; for the save of the ideal self, the load and the save of the journal,
  the load, the creation and the update of a habit, the progress fetch and the demo button
  it shows one error toast (on a page that has the toast container); the load of the habits
  and the progress fetch also put the chart area in the state \<open>error\<close> with their message (on
  a page that has the canvas and the placeholder). Three failures are not converted into a
  toast. The load of the ideal self only logs. The check of the demo seed inside the load
  of the habits swallows the failure of its own request (it returns \<^verbatim>\<open>false\<close>, and the load
  goes on to its own request), and never reads the outcome of its reset request: nothing is
  logged and nothing is shown. The demo button does not read the status of its reset
  request: an answer with an error status is handled as a success, and only a rejected
  request is a failure of that operation. The counterexample below shows the three.
\<close>

theorem gateway_failure_caught:
  "run env op s =
     (case attempt env op s of
        Inr s' \<Rightarrow> s'
      | Inl (e, s') \<Rightarrow> catch_block op e s') \<and>
   (request_failure env op s = Some err \<longrightarrow>
      (\<exists>s'. attempt env op s = Inl (err, s')) \<and>
      console (run env op s) = console s @ [err] \<and>
      toasts (run env op s) =
        toasts s @
        (case failure_toast op of
           None \<Rightarrow> []
         | Some m \<Rightarrow>
             if el_toastContainer s = None then []
             else [\<lparr>toast_classes = [''toast'', ''error''], toast_text = m\<rparr>]) \<and>
      (\<forall>m cv ph. failure_chart_message op = Some m \<and> el_habitChart s = Some cv \<and>
                 el_chartEmptyState s = Some ph \<longrightarrow>
         visibility_state (run env op s) = Some ''error'' \<and>
         placeholder_text (run env op s) = m)) \<and>
   (seed_check_fails env (length (requests s)) \<longrightarrow>
      ensureDemoSeed env s = (False, send GET_habits s)) \<and>
   console (snd (ensureDemoSeed env s)) = console s \<and>
   toasts (snd (ensureDemoSeed env s)) = toasts s \<and>
   ensureDemoSeed (env\<lparr>post_demo_reset := reset\<rparr>) s = ensureDemoSeed env s \<and>
   (post_demo_reset env (length (requests s)) = Response ok body \<longrightarrow>
      demoSeedBtn_click env s =
        loadJournalEntries env
          (loadHabits env (showToast ''Demo data loaded'' ''success'' (send POST_demo_reset s))))"
proof (intro conjI impI)
  show "run env op s =
     (case attempt env op s of
        Inr s' \<Rightarrow> s'
      | Inl (e, s') \<Rightarrow> catch_block op e s')"
    by (rule run_attempt)
next
  assume f: "request_failure env op s = Some err"
  show "\<exists>s'. attempt env op s = Inl (err, s')"
    using f by (rule request_failure_thrown)
  show "console (run env op s) = console s @ [err]"
    using caught_effects [OF f] by (elim conjE)
  show "toasts (run env op s) =
        toasts s @
        (case failure_toast op of
           None \<Rightarrow> []
         | Some m \<Rightarrow>
             if el_toastContainer s = None then []
             else [\<lparr>toast_classes = [''toast'', ''error''], toast_text = m\<rparr>])"
    using caught_effects [OF f] by (elim conjE)
  show "\<forall>m cv ph. failure_chart_message op = Some m \<and> el_habitChart s = Some cv \<and>
                 el_chartEmptyState s = Some ph \<longrightarrow>
         visibility_state (run env op s) = Some ''error'' \<and>
         placeholder_text (run env op s) = m"
    using caught_effects [OF f] by (elim conjE)
next
  assume "seed_check_fails env (length (requests s))"
  then show "ensureDemoSeed env s = (False, send GET_habits s)"
    by (rule ensureDemoSeed_swallows(1))
next
  show "console (snd (ensureDemoSeed env s)) = console s"
    by (rule ensureDemoSeed_swallows(2))
  show "toasts (snd (ensureDemoSeed env s)) = toasts s"
    by (rule ensureDemoSeed_swallows(3))
  show "ensureDemoSeed (env\<lparr>post_demo_reset := reset\<rparr>) s = ensureDemoSeed env s"
    by (rule ensureDemoSeed_swallows(4))
next
  assume "post_demo_reset env (length (requests s)) = Response ok body"
  then show "demoSeedBtn_click env s =
        loadJournalEntries env
          (loadHabits env (showToast ''Demo data loaded'' ''success'' (send POST_demo_reset s)))"
    by (rule demoSeedBtn_answered)
qed

theorem gateway_failure_caught_witness:
  "console (loadHabits server_down page) = [NetworkFailure] \<and>
   toasts (loadHabits server_down page) =
     [\<lparr>toast_classes = [''toast'', ''error''], toast_text = ''Could not load habits''\<rparr>] \<and>
   visibility_state (loadHabits server_down page) = Some ''error'' \<and>
   placeholder_text (loadHabits server_down page) = ''Could not load habits.'' \<and>
   ensureDemoSeed server_down page = (False, send GET_habits page) \<and>
   console (saveIdealSelf server_down page) = [NetworkFailure] \<and>
   toasts (saveIdealSelf server_down page) =
     [\<lparr>toast_classes = [''toast'', ''error''], toast_text = ''Could not save ideal self''\<rparr>] \<and>
   demoSeedBtn_click server_refusing page =
     loadJournalEntries server_refusing
       (loadHabits server_refusing
          (showToast ''Demo data loaded'' ''success'' (send POST_demo_reset page)))"
proof -
  have a: "request_failure server_down LoadHabits page = Some NetworkFailure"
    and b: "request_failure server_down SaveIdealSelf page = Some NetworkFailure"
    and c: "seed_check_fails server_down (length (requests page))"
    and d: "post_demo_reset server_refusing (length (requests page)) = Response False None"
    by (simp_all add: response_failure_def seed_check_fails_def server_down_def
          server_refusing_def)
  have p: "console page = []" "toasts page = []" "el_toastContainer page = Some []"
    "el_habitChart page = Some \<lparr>style_display = [], canvas_aria_hidden = None\<rparr>"
    "el_chartEmptyState page =
       Some \<lparr>textContent = [], dataset_state = None, aria_hidden = None, classList = []\<rparr>"
    by (simp_all add: page_def toasts_def)
  note habits = gateway_failure_caught
      [where env = server_down and op = LoadHabits and s = page and err = NetworkFailure,
       THEN conjunct2]
  note save = gateway_failure_caught
      [where env = server_down and op = SaveIdealSelf and s = page and err = NetworkFailure,
       THEN conjunct2]
  note demo = gateway_failure_caught
      [where env = server_refusing and op = DemoSeed and s = page and err = NetworkFailure
         and ok = False and body = None, THEN conjunct2]
  have "console (loadHabits server_down page) = [NetworkFailure] \<and>
   toasts (loadHabits server_down page) =
     [\<lparr>toast_classes = [''toast'', ''error''], toast_text = ''Could not load habits''\<rparr>] \<and>
   visibility_state (loadHabits server_down page) = Some ''error'' \<and>
   placeholder_text (loadHabits server_down page) = ''Could not load habits.'' \<and>
   ensureDemoSeed server_down page = (False, send GET_habits page)"
    using habits a c by (simp add: p)
  moreover have "console (saveIdealSelf server_down page) = [NetworkFailure] \<and>
   toasts (saveIdealSelf server_down page) =
     [\<lparr>toast_classes = [''toast'', ''error''], toast_text = ''Could not save ideal self''\<rparr>]"
    using save b by (simp add: p)
  moreover have "demoSeedBtn_click server_refusing page =
     loadJournalEntries server_refusing
       (loadHabits server_refusing
          (showToast ''Demo data loaded'' ''success'' (send POST_demo_reset page)))"
    using demo d by simp
  ultimately show ?thesis by simp
qed

theorem gateway_failure_counterexample:
  "el_toastContainer page = Some [] \<and>
   request_failure server_down LoadIdealSelf page = Some NetworkFailure \<and>
   console (loadIdealSelf server_down page) = [NetworkFailure] \<and>
   toasts (loadIdealSelf server_down page) = [] \<and>
   seed_check_fails server_down (length (requests page)) \<and>
   console (snd (ensureDemoSeed server_down page)) = [] \<and>
   toasts (snd (ensureDemoSeed server_down page)) = [] \<and>
   post_demo_reset server_refusing (length (requests page)) = Response False None \<and>
   console (demoSeedBtn_click server_refusing page) = [] \<and>
   toasts (demoSeedBtn_click server_refusing page) =
     [\<lparr>toast_classes = [''toast'', ''success''], toast_text = ''Demo data loaded''\<rparr>]"
proof -
  have "el_toastContainer page = Some [] \<and>
   request_failure server_down LoadIdealSelf page = Some NetworkFailure \<and>
   console (loadIdealSelf server_down page) = [NetworkFailure] \<and>
   toasts (loadIdealSelf server_down page) = []"
    by (simp add: loadIdealSelf_def loadIdealSelf_resume_def loadIdealSelf_try_def
          response_failure_def server_down_def page_def toasts_def console_error_def send_def)
  moreover have "seed_check_fails server_down (length (requests page)) \<and>
   console (snd (ensureDemoSeed server_down page)) = [] \<and>
   toasts (snd (ensureDemoSeed server_down page)) = []"
    by (simp add: seed_check_fails_def ensureDemoSeed_def ensureDemoSeed_resume_def
          server_down_def page_def toasts_def send_def)
  moreover have "post_demo_reset server_refusing (length (requests page)) = Response False None"
    by (simp add: server_refusing_def)
  moreover have "console (demoSeedBtn_click server_refusing page) = []"
    by code_simp
  moreover have "toasts (demoSeedBtn_click server_refusing page) =
     [\<lparr>toast_classes = [''toast'', ''success''], toast_text = ''Demo data loaded''\<rparr>]"
    by code_simp
  ultimately show ?thesis by simp
qed

section \<open>The invariant of the chart handle\<close>

text \<open>
  The invariant \<open>chart_inv\<close> assumed of the state in claim C3 holds of the page at its
  start (\<open>chart_inv_page\<close>) and is kept by every operation and handler of the script: the
  handle is cleared or replaced only after \<open>destroy()\<close>.
\<close>

lemma chart_inv_cong:
  "habitChart t = habitChart s \<Longrightarrow> charts t = charts s \<Longrightarrow> chart_inv t = chart_inv s"
  by (simp add: chart_inv_def live_charts_def destroy_def split: option.splits)

lemma chart_inv_destroy:
  assumes "chart_inv s" and "habitChart s = Some h"
  shows "chart_inv (destroy h s)" and "live_charts (destroy h s) = []"
  using assms by (simp_all add: chart_inv_def frame live_charts_destroy_idem)

lemma chart_inv_updateChartVisibility:
  assumes "chart_inv s"
  shows "chart_inv (updateChartVisibility st m s)"
proof (cases "el_habitChart s = None \<or> el_chartEmptyState s = None")
  case True
  then show ?thesis using assms by (simp add: updateChartVisibility_absent)
next
  case False
  then obtain cv ph where cv: "el_habitChart s = Some cv" and ph: "el_chartEmptyState s = Some ph"
    by auto
  show ?thesis
  proof (cases "st = ''ready''")
    case True
    have "chart_inv (updateChartVisibility ''ready'' m s) = chart_inv s"
      by (rule chart_inv_cong) (simp_all add: updateChartVisibility_ready [OF cv ph])
    with assms True show ?thesis by simp
  next
    case other: False
    show ?thesis
    proof (cases "(st = ''empty'' \<or> st = ''error'') \<and> habitChart s \<noteq> None")
      case False
      have "chart_inv (updateChartVisibility st m s) = chart_inv s"
        using False
        by (intro chart_inv_cong)
           (auto simp add: updateChartVisibility_other [OF cv ph other] Let_def
              split: option.splits)
      with assms show ?thesis by simp
    next
      case True
      then obtain h where h: "habitChart s = Some h" by auto
      have hc: "habitChart (updateChartVisibility st m s) = None"
        and ch: "charts (updateChartVisibility st m s) = charts (destroy h s)"
        using True h
        by (simp_all add: updateChartVisibility_other [OF cv ph other] Let_def destroy_def)
      have "live_charts (updateChartVisibility st m s) = live_charts (destroy h s)"
        using ch by (rule live_charts_cong)
      then show ?thesis
        using hc chart_inv_destroy(2) [OF assms h] by (simp add: chart_inv_def)
    qed
  qed
qed

lemma chart_inv_showToast: "chart_inv (showToast m t s) = chart_inv s"
  by (rule chart_inv_cong) (simp_all add: frame)

lemma chart_inv_console_error: "chart_inv (console_error e s) = chart_inv s"
  by (rule chart_inv_cong) (simp_all add: frame)

lemma chart_inv_send: "chart_inv (send r s) = chart_inv s"
  by (rule chart_inv_cong) (simp_all add: frame)

lemma chart_inv_new_chart:
  assumes "chart_inv s" and "case habitChart s of None \<Rightarrow> True | Some h \<Rightarrow> live_charts s = []"
  shows "chart_inv (s\<lparr>charts := charts s @ [c], habitChart := Some (length (charts s))\<rparr>)"
  using assms
  by (auto simp add: chart_inv_def live_charts_def destroy_def split: option.splits)

lemma chart_inv_loadHabitProgress_try:
  assumes "chart_inv s"
  shows "case loadHabitProgress_try env i s of
           Inl (err, s') \<Rightarrow> chart_inv s'
         | Inr s' \<Rightarrow> chart_inv s'"
proof -
  let ?s1 = "send (GET_progress i (currentRange s)) s"
  let ?s2 = "case habitChart ?s1 of None \<Rightarrow> ?s1 | Some h \<Rightarrow> destroy h ?s1"
  have inv1: "chart_inv ?s1" using assms by (simp add: chart_inv_send)
  have inv2: "chart_inv ?s2"
    using inv1 chart_inv_destroy(1) [of ?s1] by (simp split: option.splits)
  have dead2: "case habitChart ?s2 of None \<Rightarrow> True | Some h \<Rightarrow> live_charts ?s2 = []"
    using inv1 chart_inv_destroy(2) [of ?s1] by (auto simp add: frame split: option.splits)
  have new: "chart_inv (updateChartVisibility ''ready'' None
                 (?s2\<lparr>charts := charts ?s2 @ [c], habitChart := Some (length (charts ?s2))\<rparr>))" for c
    by (intro chart_inv_updateChartVisibility chart_inv_new_chart inv2 dead2)
  have unavailable: "chart_inv (showToast ''Progress chart unavailable right now'' ''error''
                        (updateChartVisibility ''error'' (Some ''Chart unavailable.'') ?s1))"
    using inv1 by (simp add: chart_inv_showToast chart_inv_updateChartVisibility)
  show ?thesis
    unfolding loadHabitProgress_try_def Let_def
    using inv1 inv2 new unavailable
    by (simp split: fetch_result.splits option.splits)
qed

lemma chart_inv_loadHabitProgress:
  assumes "chart_inv s"
  shows "chart_inv (loadHabitProgress env s)"
proof (cases "currentHabitId s")
  case None
  with assms show ?thesis by (simp add: loadHabitProgress_def)
next
  case (Some i)
  let ?s0 = "updateChartVisibility ''loading'' (Some ''Loading progress...'') s"
  have inv0: "chart_inv ?s0" using assms by (rule chart_inv_updateChartVisibility)
  show ?thesis
  proof (cases "loadHabitProgress_try env i ?s0")
    case (Inl p)
    obtain err s' where p: "p = (err, s')" by (cases p)
    then have "chart_inv s'"
      using chart_inv_loadHabitProgress_try [OF inv0, of env i] Inl by simp
    then have "chart_inv (showToast ''Could not load progress'' ''error''
                   (updateChartVisibility ''error'' (Some ''Could not load progress right now.'')
                      (console_error err s')))"
      by (simp add: chart_inv_showToast chart_inv_updateChartVisibility chart_inv_console_error)
    with Inl p Some assms show ?thesis by (simp add: loadHabitProgress_def)
  next
    case (Inr s')
    then have "chart_inv s'"
      using chart_inv_loadHabitProgress_try [OF inv0, of env i] by simp
    with Inr Some assms show ?thesis by (simp add: loadHabitProgress_def)
  qed
qed


lemma chart_inv_call_loadHabitProgress:
  "chart_inv s \<Longrightarrow> chart_inv (call_loadHabitProgress env s)"
proof -
  assume "chart_inv s"
  moreover have "chart_inv (s\<lparr>progress_calls := progress_calls s @ [(currentHabitId s, currentRange s)]\<rparr>) =
      chart_inv s"
    by (rule chart_inv_cong) simp_all
  ultimately show ?thesis
    by (simp add: call_loadHabitProgress_def chart_inv_loadHabitProgress)
qed

lemma chart_inv_renderHabits: "chart_inv s \<Longrightarrow> chart_inv (renderHabits env habits s)"
proof -
  assume inv: "chart_inv s"
  have "chart_inv (s\<lparr>el_habitList := x\<rparr>) = chart_inv s" for x
    by (rule chart_inv_cong) simp_all
  with inv show ?thesis
    by (simp add: renderHabits_def chart_inv_updateChartVisibility split: option.splits)
qed

lemma chart_inv_updateHabitSelectOptions:
  "chart_inv (updateHabitSelectOptions habits s) = chart_inv s"
  by (rule chart_inv_cong)
     (simp_all add: updateHabitSelectOptions_def Let_def
        split: option.splits prod.splits list.splits)

lemma chart_inv_setupRangeButtons: "chart_inv (setupRangeButtons s) = chart_inv s"
  by (rule chart_inv_cong) (simp_all add: frame)

lemma chart_inv_ensureDemoSeed_resume:
  "chart_inv (snd (ensureDemoSeed_resume env k s)) = chart_inv s"
  by (rule chart_inv_cong)
     (simp_all add: ensureDemoSeed_resume_def frame split: fetch_result.splits option.splits)

lemma chart_inv_loadHabits_resume:
  assumes "chart_inv s"
  shows "chart_inv (loadHabits_resume env k s)"
proof -
  let ?s2 = "send GET_habits (snd (ensureDemoSeed_resume env k s))"
  have inv2: "chart_inv ?s2"
    using assms by (simp add: chart_inv_send chart_inv_ensureDemoSeed_resume)
  have caught: "chart_inv (updateChartVisibility ''error'' (Some ''Could not load habits.'')
                  (showToast ''Could not load habits'' ''error'' (console_error err ?s2)))" for err
    using inv2
    by (simp add: chart_inv_updateChartVisibility chart_inv_showToast chart_inv_console_error)
  have s3: "chart_inv (setupRangeButtons
                         (updateHabitSelectOptions habits (renderHabits env habits ?s2)))" for habits
    using inv2
    by (simp add: chart_inv_setupRangeButtons chart_inv_updateHabitSelectOptions
          chart_inv_renderHabits)
  show ?thesis
    using caught s3
    by (simp add: loadHabits_resume_def loadHabits_try_def Let_def case_prod_beta
          chart_inv_call_loadHabitProgress chart_inv_updateChartVisibility
          split: fetch_result.splits option.splits)
qed

lemma chart_inv_loadHabits:
  assumes "chart_inv s"
  shows "chart_inv (loadHabits env s)"
  using assms by (simp add: loadHabits_def chart_inv_loadHabits_resume chart_inv_send)

lemma chart_inv_addHabit:
  assumes "chart_inv s"
  shows "chart_inv (addHabit env name s)"
proof -
  let ?s1 = "send POST_habits s"
  have inv1: "chart_inv ?s1" using assms by (simp add: chart_inv_send)
  have caught: "chart_inv (showToast ''Could not add habit'' ''error'' (console_error err ?s1))"
    for err
    using inv1 by (simp add: chart_inv_showToast chart_inv_console_error)
  have "chart_inv (?s1\<lparr>currentHabitId := x\<rparr>) = chart_inv ?s1" for x
    by (rule chart_inv_cong) simp_all
  then have s4: "chart_inv (loadHabits env
                   (showToast ''Habit added'' ''success'' (?s1\<lparr>currentHabitId := x\<rparr>)))" for x
    using inv1 by (intro chart_inv_loadHabits) (simp add: chart_inv_showToast)
  show ?thesis
    using assms caught s4
    by (simp add: addHabit_def addHabit_try_def Let_def chart_inv_call_loadHabitProgress
          split: fetch_result.splits option.splits)
qed

lemma chart_inv_toggleHabitCompletion:
  assumes "chart_inv s"
  shows "chart_inv (toggleHabitCompletion env h s)"
proof -
  let ?s1 = "send (PUT_habit (habit_id h)) s"
  have inv1: "chart_inv ?s1" using assms by (simp add: chart_inv_send)
  then have "chart_inv (showToast ''Could not update habit'' ''error'' (console_error err ?s1))"
    for err
    by (simp add: chart_inv_showToast chart_inv_console_error)
  moreover have "chart_inv (loadHabits env ?s1)"
    using inv1 by (rule chart_inv_loadHabits)
  ultimately show ?thesis
    by (simp add: toggleHabitCompletion_def toggleHabitCompletion_try_def Let_def
          chart_inv_call_loadHabitProgress split: fetch_result.splits)
qed

lemma chart_inv_renderIdealSelfSummary: "chart_inv (renderIdealSelfSummary v fs s) = chart_inv s"
  by (rule chart_inv_cong)
     (simp_all add: renderIdealSelfSummary_def Let_def split: option.splits)

lemma chart_inv_loadIdealSelf_resume: "chart_inv (loadIdealSelf_resume env k s) = chart_inv s"
proof -
  have "habitChart (loadIdealSelf_resume env k s) = habitChart s \<and>
        charts (loadIdealSelf_resume env k s) = charts s"
    by (simp add: loadIdealSelf_resume_def loadIdealSelf_try_def Let_def frame
          renderIdealSelfSummary_def split: fetch_result.splits option.splits)
  then show ?thesis by (intro chart_inv_cong) simp_all
qed

lemma chart_inv_loadIdealSelf: "chart_inv (loadIdealSelf env s) = chart_inv s"
  by (simp add: loadIdealSelf_def chart_inv_loadIdealSelf_resume chart_inv_send)

lemma chart_inv_saveIdealSelf: "chart_inv (saveIdealSelf env s) = chart_inv s"
proof -
  have "habitChart (saveIdealSelf env s) = habitChart s \<and> charts (saveIdealSelf env s) = charts s"
    by (simp add: saveIdealSelf_def saveIdealSelf_try_def Let_def frame
          renderIdealSelfSummary_def split: fetch_result.splits option.splits)
  then show ?thesis by (intro chart_inv_cong) simp_all
qed

lemma chart_inv_loadJournalEntries_resume:
  "chart_inv (loadJournalEntries_resume env k s) = chart_inv s"
proof -
  have "habitChart (loadJournalEntries_resume env k s) = habitChart s \<and>
        charts (loadJournalEntries_resume env k s) = charts s"
    by (simp add: loadJournalEntries_resume_def loadJournalEntries_try_def Let_def frame
          split: fetch_result.splits option.splits)
  then show ?thesis by (intro chart_inv_cong) simp_all
qed

lemma chart_inv_loadJournalEntries: "chart_inv (loadJournalEntries env s) = chart_inv s"
  by (simp add: loadJournalEntries_def chart_inv_loadJournalEntries_resume chart_inv_send)

lemma chart_inv_addJournalEntry: "chart_inv (addJournalEntry env s) = chart_inv s"
proof -
  have "chart_inv (s1\<lparr>el_journalInput := x\<rparr>) = chart_inv s1" for s1 x
    by (rule chart_inv_cong) simp_all
  then show ?thesis
    by (simp add: addJournalEntry_def addJournalEntry_try_def Let_def
          chart_inv_loadJournalEntries chart_inv_showToast
          chart_inv_console_error chart_inv_send split: fetch_result.splits option.splits)
qed

lemma chart_inv_demoSeedBtn_click:
  assumes "chart_inv s"
  shows "chart_inv (demoSeedBtn_click env s)"
proof -
  let ?s1 = "send POST_demo_reset s"
  have inv1: "chart_inv ?s1" using assms by (simp add: chart_inv_send)
  then have "chart_inv (loadHabits env (showToast ''Demo data loaded'' ''success'' ?s1))"
    by (intro chart_inv_loadHabits) (simp add: chart_inv_showToast)
  then show ?thesis
    using inv1
    by (simp add: demoSeedBtn_click_def demoSeedBtn_try_def Let_def
          chart_inv_loadJournalEntries chart_inv_showToast chart_inv_console_error
          split: fetch_result.splits)
qed

lemma chart_inv_run: "chart_inv s \<Longrightarrow> chart_inv (run env op s)"
  by (cases op)
     (simp_all add: chart_inv_loadIdealSelf chart_inv_saveIdealSelf chart_inv_loadJournalEntries
        chart_inv_addJournalEntry chart_inv_loadHabits chart_inv_addHabit
        chart_inv_toggleHabitCompletion chart_inv_loadHabitProgress
        chart_inv_demoSeedBtn_click)

lemma chart_inv_resume: "chart_inv s \<Longrightarrow> chart_inv (resume env n l s)"
  by (cases l)
     (simp_all add: chart_inv_loadIdealSelf_resume chart_inv_loadHabits_resume
        chart_inv_loadJournalEntries_resume)

lemma chart_inv_arrivals: "chart_inv s \<Longrightarrow> chart_inv (fold (resume env n) ls s)"
  by (induction ls arbitrary: s) (simp_all add: chart_inv_resume)

lemma chart_inv_handlers:
  assumes "chart_inv s"
  shows "chart_inv (viewProgress_click env h habits s)"
    and "chart_inv (rangeButton_click env days s)"
    and "chart_inv (habitSelect_change env nextId s)"
    and "chart_inv (DOMContentLoaded env arrival s)"
proof -
  have a: "chart_inv (s\<lparr>currentHabitId := x\<rparr>) = chart_inv s" for x
    by (rule chart_inv_cong) simp_all
  have b: "chart_inv (s\<lparr>currentRange := y\<rparr>) = chart_inv s" for y
    by (rule chart_inv_cong) simp_all
  show "chart_inv (viewProgress_click env h habits s)"
    using assms
    by (simp add: viewProgress_click_def chart_inv_call_loadHabitProgress
          chart_inv_updateHabitSelectOptions a)
  show "chart_inv (rangeButton_click env days s)"
    using assms
    by (simp add: rangeButton_click_def chart_inv_call_loadHabitProgress
          chart_inv_setupRangeButtons b)
  show "chart_inv (habitSelect_change env nextId s)"
    using assms
    by (simp add: habitSelect_change_def chart_inv_call_loadHabitProgress a
          split: option.splits)
  show "chart_inv (DOMContentLoaded env arrival s)"
    using assms
    by (simp add: DOMContentLoaded_def Let_def chart_inv_arrivals chart_inv_send
          chart_inv_updateChartVisibility chart_inv_setupRangeButtons)
qed

end
